theory Spec2Isabelle
  imports Main "HOL-Library.AList"
begin

section \<open>JavaScript values\<close>

text \<open>
  The platform client handles values typed \<open>any\<close>: response bodies, header values, the
  function configuration read from disk. They are modelled as the values JSON can denote,
  plus \<open>undefined\<close>. An object is the list of its own enumerable properties in the order
  in which they were created; a property is looked up with \<open>map_of\<close> (the first entry of a
  key counts), and \<open>AList.update\<close> stores one: an existing key keeps its place, a new key
  goes to the end. Prototypes are not represented. A number is kept as the text JavaScript
  prints for it (\<open>42\<close>, \<open>1.5\<close>, \<open>1e+21\<close>, \<open>NaN\<close>): the program never computes with a
  number, and that text is all it can observe of one.
\<close>

datatype jsval =
    JUndefined
  | JNull
  | JBool bool
  | JNum string
  | JStr string
  | JArr "jsval list"
  | JObj "(string \<times> jsval) list"

text \<open>
  What the program can throw or reject with: \<open>new Error(msg)\<close>, the runtime's
  \<open>TypeError\<close>, the rejection of an HTTP call, and an exception of a host library
  (file system, base64).
\<close>

datatype js_error =
    Error string
  | TypeError string
  | TransportError string
  | SystemError string

text \<open>\<open>v ? a : b\<close> tests \<open>truthy v\<close>.\<close>

fun truthy :: "jsval \<Rightarrow> bool" where
  "truthy JUndefined = False"
| "truthy JNull = False"
| "truthy (JBool b) = b"
| "truthy (JNum n) = (n \<noteq> ''0'' \<and> n \<noteq> ''NaN'')"
| "truthy (JStr s) = (s \<noteq> [])"
| "truthy (JArr xs) = True"
| "truthy (JObj kvs) = True"

text \<open>Decimal numerals, for array indices as property names.\<close>

function show_nat :: "nat \<Rightarrow> string" where
  "show_nat n =
     (if n < 10 then [''0123456789'' ! n]
      else show_nat (n div 10) @ [''0123456789'' ! (n mod 10)])"
  by pat_completeness auto
termination
  by (relation "measure (\<lambda>n. n)") auto

fun join_comma :: "string list \<Rightarrow> string" where
  "join_comma [] = []"
| "join_comma [s] = s"
| "join_comma (s # t # ss) = s @ '','' @ join_comma (t # ss)"

text \<open>
  \<open>to_str v\<close> is the text a template literal \<open>`${v}`\<close> inserts: an array joins its
  elements with commas, \<open>null\<close> and \<open>undefined\<close> elements being empty.
\<close>

fun to_str :: "jsval \<Rightarrow> string" where
  "to_str JUndefined = ''undefined''"
| "to_str JNull = ''null''"
| "to_str (JBool b) = (if b then ''true'' else ''false'')"
| "to_str (JNum n) = n"
| "to_str (JStr s) = s"
| "to_str (JArr xs) =
     join_comma (map (\<lambda>x. if x = JUndefined \<or> x = JNull then [] else to_str x) xs)"
| "to_str (JObj kvs) = ''[object Object]''"

text \<open>
  Reading a property \<open>v.k\<close>. On \<open>undefined\<close> and \<open>null\<close> it throws. The program reads
  only the property names of the resource schema (\<open>metadata\<close>, \<open>labels\<close>, \<open>name\<close>,
  \<open>namespace\<close>, \<open>status\<close>, \<open>state\<close>, \<open>message\<close>, \<open>spec\<close>, \<open>build\<close>); no string, number,
  boolean or array has one of them, so there the result is \<open>undefined\<close>.
\<close>

fun get_prop :: "jsval \<Rightarrow> string \<Rightarrow> js_error + jsval" where
  "get_prop JUndefined k = Inl (TypeError (''Cannot read property '' @ k @ '' of undefined''))"
| "get_prop JNull k = Inl (TypeError (''Cannot read property '' @ k @ '' of null''))"
| "get_prop (JObj kvs) k = Inr (case map_of kvs k of Some v \<Rightarrow> v | None \<Rightarrow> JUndefined)"
| "get_prop v k = Inr JUndefined"

text \<open>
  Storing a property on an object, as an assignment and \<open>Object.assign\<close> do. The name
  \<open>__proto__\<close> is the prototype's accessor: a store under it replaces the object's
  prototype (with an object or \<open>null\<close>) or does nothing, and never creates an own property,
  so the own properties stay as they are.
\<close>

definition store :: "string \<Rightarrow> jsval \<Rightarrow> (string \<times> jsval) list \<Rightarrow> (string \<times> jsval) list" where
  "store k x kvs = (if k = ''__proto__'' then kvs else AList.update k x kvs)"

text \<open>
  Storing a property \<open>v[k] = x\<close>, in strict mode (the compiled modules are strict): it
  throws on \<open>undefined\<close>, \<open>null\<close> and on a primitive. A named property stored on an array
  is not an element of it, is not serialised by \<open>JSON.stringify\<close> and is not represented
  here: the array is returned as it is. The function returns the updated value, where the
  source mutates the object in place.
\<close>

fun set_prop :: "jsval \<Rightarrow> string \<Rightarrow> jsval \<Rightarrow> js_error + jsval" where
  "set_prop (JObj kvs) k x = Inr (JObj (store k x kvs))"
| "set_prop (JArr xs) k x = Inr (JArr xs)"
| "set_prop JUndefined k x = Inl (TypeError (''Cannot set property '' @ k @ '' of undefined''))"
| "set_prop JNull k x = Inl (TypeError (''Cannot set property '' @ k @ '' of null''))"
| "set_prop v k x = Inl (TypeError (''Cannot create property '' @ k))"

text \<open>
  The order in which the keys of an object are enumerated: first the keys that are array
  indices (the decimal numeral of a number below \<open>2^32 - 1\<close>, without leading zeros), by
  ascending value, then the other keys in the order of their creation.
\<close>

definition is_digit :: "char \<Rightarrow> bool" where
  "is_digit c = (c \<in> set ''0123456789'')"

definition index_value :: "string \<Rightarrow> nat" where
  "index_value k = foldl (\<lambda>n c. 10 * n + (of_char c - 48)) 0 k"

definition is_index :: "string \<Rightarrow> bool" where
  "is_index k =
     (k \<noteq> [] \<and> list_all is_digit k \<and> (if hd k = CHR ''0'' then k = ''0'' else True) \<and>
      index_value k < 4294967295)"

definition key_order :: "string list \<Rightarrow> string list" where
  "key_order ks = sort_key index_value (filter is_index ks) @ filter (\<lambda>k. \<not> is_index k) ks"

text \<open>
  The own enumerable properties of a value, as \<open>Object.keys\<close> and \<open>Object.assign\<close>
  enumerate them: the entries of an object (each key once, with the value a lookup
  gives), the elements of an array and the characters of a string under their indices,
  nothing for a number or a boolean. \<open>None\<close> for \<open>undefined\<close> and \<open>null\<close>, which have no
  properties.
\<close>

fun own_entries :: "jsval \<Rightarrow> (string \<times> jsval) list option" where
  "own_entries JUndefined = None"
| "own_entries JNull = None"
| "own_entries (JBool b) = Some []"
| "own_entries (JNum n) = Some []"
| "own_entries (JStr s) = Some (zip (map show_nat [0..<length s]) (map (\<lambda>c. JStr [c]) s))"
| "own_entries (JArr xs) = Some (zip (map show_nat [0..<length xs]) xs)"
| "own_entries (JObj kvs) =
     Some (map (\<lambda>k. (k, case map_of kvs k of Some v \<Rightarrow> v | None \<Rightarrow> JUndefined))
            (key_order (remdups (map fst kvs))))"

text \<open>\<open>Object.keys(v)\<close> throws on \<open>undefined\<close> and \<open>null\<close>.\<close>

definition object_keys :: "jsval \<Rightarrow> js_error + string list" where
  "object_keys v =
     (case own_entries v of
        None \<Rightarrow> Inl (TypeError ''Cannot convert undefined or null to object'')
      | Some es \<Rightarrow> Inr (map fst es))"

text \<open>\<open>v[k]\<close> for a key \<open>k\<close> that \<open>Object.keys(v)\<close> returned.\<close>

definition own_value :: "jsval \<Rightarrow> string \<Rightarrow> jsval" where
  "own_value v k =
     (case own_entries v of
        None \<Rightarrow> JUndefined
      | Some es \<Rightarrow> (case map_of es k of Some x \<Rightarrow> x | None \<Rightarrow> JUndefined))"

text \<open>
  \<open>Object.assign(target, source)\<close> for a target that is an object: every own property
  of the source, in the order of enumeration, is stored on the target; a \<open>null\<close> or
  \<open>undefined\<close> source is skipped.
\<close>

definition object_assign :: "(string \<times> jsval) list \<Rightarrow> jsval \<Rightarrow> (string \<times> jsval) list" where
  "object_assign target source =
     (case own_entries source of
        None \<Rightarrow> target
      | Some es \<Rightarrow> foldl (\<lambda>t (k, x). store k x t) target es)"

text \<open>Sequencing of steps that may throw: the first exception ends the sequence.\<close>

definition bind_r :: "js_error + 'a \<Rightarrow> ('a \<Rightarrow> js_error + 'b) \<Rightarrow> js_error + 'b" where
  "bind_r m f = (case m of Inl e \<Rightarrow> Inl e | Inr a \<Rightarrow> f a)"

text \<open>
  The nested store \<open>obj.a.b = x\<close>: read \<open>obj.a\<close>, store \<open>b\<close> on it. The source mutates
  the inner object in place; the model puts the updated inner value back under \<open>a\<close>.
\<close>

definition set_prop2 :: "jsval \<Rightarrow> string \<Rightarrow> string \<Rightarrow> jsval \<Rightarrow> js_error + jsval" where
  "set_prop2 obj a b x =
     bind_r (get_prop obj a) (\<lambda>inner.
     bind_r (set_prop inner b x) (\<lambda>inner'.
     set_prop obj a inner'))"

section \<open>The HTTP library and the host\<close>

text \<open>
  The program talks to the dashboard through the request-method aliases of its HTTP
  library: \<open>get\<close>, \<open>delete\<close>, \<open>head\<close> and \<open>options\<close> take \<open>(url, config)\<close>; \<open>post\<close>,
  \<open>put\<close> and \<open>patch\<close> take \<open>(url, data, config)\<close>. A request is what the program hands
  to the library. Its body is a value, \<open>Value JUndefined\<close> when there is none, or the
  text \<open>JSON.stringify\<close> produces for a value (\<open>JsonText v\<close>; the text is not computed).
\<close>

datatype verb = GET | POST | PUT | PATCH | DELETE | HEAD | OPTIONS

datatype payload = Value jsval | JsonText jsval

record request =
  req_method :: verb
  req_url :: string
  req_headers :: jsval
  req_data :: payload

record response =
  resp_status :: int
  resp_headers :: jsval
  resp_data :: jsval

record axios_config =
  cfg_headers :: jsval
  cfg_data :: payload

definition no_config :: axios_config where
  "no_config = \<lparr>cfg_headers = JUndefined, cfg_data = Value JUndefined\<rparr>"

text \<open>
  Everything the program does to the outside is an event of a trace, in order: an HTTP
  call, a wait of \<open>setTimeout\<close> (milliseconds), a line on the output channel, a
  notification. The remote service is any function from the trace so far and the request
  to a response or a rejection: a deterministic server, whose answers may depend on
  everything that happened before.
\<close>

datatype event = Call request | Sleep nat | Log string | Notify string

type_synonym backend = "event list \<Rightarrow> request \<Rightarrow> js_error + response"

definition axios_send ::
  "backend \<Rightarrow> request \<Rightarrow> event list \<Rightarrow> (js_error + response) \<times> event list" where
  "axios_send backend req tr = (backend tr req, tr @ [Call req])"

definition axios_get ::
  "backend \<Rightarrow> string \<Rightarrow> axios_config \<Rightarrow> event list \<Rightarrow> (js_error + response) \<times> event list" where
  "axios_get backend u config =
     axios_send backend
       \<lparr>req_method = GET, req_url = u, req_headers = cfg_headers config,
        req_data = cfg_data config\<rparr>"

definition axios_delete ::
  "backend \<Rightarrow> string \<Rightarrow> axios_config \<Rightarrow> event list \<Rightarrow> (js_error + response) \<times> event list" where
  "axios_delete backend u config =
     axios_send backend
       \<lparr>req_method = DELETE, req_url = u, req_headers = cfg_headers config,
        req_data = cfg_data config\<rparr>"

definition axios_post ::
  "backend \<Rightarrow> string \<Rightarrow> payload \<Rightarrow> axios_config \<Rightarrow> event list
     \<Rightarrow> (js_error + response) \<times> event list" where
  "axios_post backend u body config =
     axios_send backend
       \<lparr>req_method = POST, req_url = u, req_headers = cfg_headers config, req_data = body\<rparr>"

text \<open>
  \<open>axios[name]\<close>, the member \<open>invokeFunction\<close> looks up by the method's name. The seven
  aliases are modelled, with the argument list each expects, and \<open>request\<close>: called as
  \<open>(url, config)\<close> it puts the url into the configuration and sends it with the
  configuration's method, \<open>get\<close> when it names none, as is the case for the configuration
  \<open>{headers}\<close> that \<open>invokeFunction\<close> passes. A name that is no member of the library gives
  \<open>undefined\<close> (\<open>None\<close>). The members of the library that are not request functions
  (\<open>create\<close>, \<open>all\<close>, \<open>spread\<close>, \<open>defaults\<close>, ...) are not modelled: for their names
  the model is not the program.
\<close>

datatype axios_fn = UrlConfig verb | UrlDataConfig verb

definition axios_member :: "string \<Rightarrow> axios_fn option" where
  "axios_member m =
     (if m = ''get'' then Some (UrlConfig GET)
      else if m = ''delete'' then Some (UrlConfig DELETE)
      else if m = ''head'' then Some (UrlConfig HEAD)
      else if m = ''options'' then Some (UrlConfig OPTIONS)
      else if m = ''post'' then Some (UrlDataConfig POST)
      else if m = ''put'' then Some (UrlDataConfig PUT)
      else if m = ''patch'' then Some (UrlDataConfig PATCH)
      else if m = ''request'' then Some (UrlConfig GET)
      else None)"

text \<open>A call passes its arguments by position; a missing argument is \<open>undefined\<close>.\<close>

definition arg :: "jsval list \<Rightarrow> nat \<Rightarrow> jsval" where
  "arg args i = (if i < length args then args ! i else JUndefined)"

definition config_of :: "jsval \<Rightarrow> axios_config" where
  "config_of c =
     \<lparr>cfg_headers = own_value c ''headers'', cfg_data = Value (own_value c ''data'')\<rparr>"

fun axios_apply :: "axios_fn \<Rightarrow> string \<Rightarrow> jsval list \<Rightarrow> request" where
  "axios_apply (UrlConfig v) u args =
     \<lparr>req_method = v, req_url = u, req_headers = cfg_headers (config_of (arg args 0)),
      req_data = cfg_data (config_of (arg args 0))\<rparr>"
| "axios_apply (UrlDataConfig v) u args =
     \<lparr>req_method = v, req_url = u, req_headers = cfg_headers (config_of (arg args 1)),
      req_data = Value (arg args 0)\<rparr>"

section \<open>The resource model\<close>

text \<open>
  The classes of the resource model declare their fields without initialisers, so a new
  instance has only what its constructor assigns: \<open>new ResourceMeta()\<close> is \<open>{}\<close>,
  \<open>new ProjectConfig()\<close> is \<open>{metadata: {}, spec: {}}\<close>, \<open>new FunctionConfig()\<close> is
  \<open>{metadata: {}, spec: {build: {}}, status: {}}\<close>.
\<close>

datatype resource_class = ProjectConfig | FunctionConfig

fun new :: "resource_class \<Rightarrow> (string \<times> jsval) list" where
  "new ProjectConfig = [(''metadata'', JObj []), (''spec'', JObj [])]"
| "new FunctionConfig =
     [(''metadata'', JObj []), (''spec'', JObj [(''build'', JObj [])]), (''status'', JObj [])]"

text \<open>
  The identifier and filter interfaces; an optional member that is absent is
  \<open>undefined\<close>. \<open>IProjectFilter\<close> adds nothing to \<open>IResourceIdentifier\<close>. The member
  \<open>method\<close> of \<open>IInvokeOptions\<close> is \<open>method_name\<close> here.
\<close>

record IResourceIdentifier =
  namespace :: jsval
  name :: jsval

record IFunctionFilter = IResourceIdentifier +
  projectName :: jsval

record IInvokeOptions =
  method_name :: string
  logLevel :: jsval
  path :: jsval
  headers :: jsval
  body :: jsval
  via :: jsval

record InvokeResult =
  statusCode :: int
  result_headers :: jsval
  result_body :: jsval

record Dashboard =
  url :: string

section \<open>The platform client\<close>

definition createProject ::
  "Dashboard \<Rightarrow> backend \<Rightarrow> jsval \<Rightarrow> event list \<Rightarrow> (js_error + jsval) \<times> event list" where
  "createProject d backend projectConfig tr =
     (case axios_post backend (url d @ ''/api/projects'') (JsonText projectConfig) no_config tr of
        (Inl e, tr1) \<Rightarrow> (Inl e, tr1)
      | (Inr result, tr1) \<Rightarrow> (Inr (resp_data result), tr1))"

text \<open>
  \<open>getResources\<close>: the namespace goes into a header, the name (when given) into the
  path; a single entity is wrapped as \<open>{single: data}\<close>; every key of the response gives
  one new instance of the class, with the entry's properties assigned to it.
\<close>

definition getResources ::
  "Dashboard \<Rightarrow> backend \<Rightarrow> 'a IResourceIdentifier_scheme \<Rightarrow> string \<Rightarrow> resource_class \<Rightarrow> jsval
     \<Rightarrow> event list \<Rightarrow> (js_error + jsval list) \<times> event list" where
  "getResources d backend flt resourceName resourceClass hdrs tr =
     (case set_prop (if truthy hdrs then hdrs else JObj [])
             (''x-nuclio-'' @ resourceName @ ''-namespace'') (namespace flt) of
        Inl e \<Rightarrow> (Inl e, tr)
      | Inr hdrs1 \<Rightarrow>
          (let p = ''/api/'' @ resourceName @ ''s'';
               p = (if name flt \<noteq> JUndefined then p @ ''/'' @ to_str (name flt) else p)
           in case axios_get backend (url d @ p)
                     \<lparr>cfg_headers = hdrs1, cfg_data = Value JUndefined\<rparr> tr of
                (Inl e, tr1) \<Rightarrow> (Inl e, tr1)
              | (Inr resp, tr1) \<Rightarrow>
                  (let responseResources =
                         (if name flt \<noteq> JUndefined then JObj [(''single'', resp_data resp)]
                          else resp_data resp)
                   in case object_keys responseResources of
                        Inl e \<Rightarrow> (Inl e, tr1)
                      | Inr names \<Rightarrow>
                          (Inr (map (\<lambda>n. JObj (object_assign (new resourceClass)
                                                  (own_value responseResources n))) names),
                           tr1))))"

definition getProjects ::
  "Dashboard \<Rightarrow> backend \<Rightarrow> IResourceIdentifier \<Rightarrow> event list
     \<Rightarrow> (js_error + jsval list) \<times> event list" where
  "getProjects d backend flt tr =
     getResources d backend flt ''project'' ProjectConfig JUndefined tr"

definition getFunctions ::
  "Dashboard \<Rightarrow> backend \<Rightarrow> IFunctionFilter \<Rightarrow> event list
     \<Rightarrow> (js_error + jsval list) \<times> event list" where
  "getFunctions d backend flt tr =
     (case (if projectName flt \<noteq> JUndefined
            then set_prop (JObj []) ''x-nuclio-project-name'' (projectName flt)
            else Inr (JObj [])) of
        Inl e \<Rightarrow> (Inl e, tr)
      | Inr hdrs \<Rightarrow> getResources d backend flt ''function'' FunctionConfig hdrs tr)"

text \<open>
  \<open>deleteResource\<close>: the name is checked first; then a new instance carrying only the
  name and the namespace is sent as the payload of a delete request.
\<close>

definition deleteResource ::
  "Dashboard \<Rightarrow> backend \<Rightarrow> 'a IResourceIdentifier_scheme \<Rightarrow> string \<Rightarrow> resource_class
     \<Rightarrow> event list \<Rightarrow> (js_error + unit) \<times> event list" where
  "deleteResource d backend ident resourceName resourceClass tr =
     (if name ident = JUndefined
      then (Inl (Error ''Resource name must be specified in delete''), tr)
      else
        (case bind_r (set_prop2 (JObj (new resourceClass)) ''metadata'' ''name'' (name ident))
                (\<lambda>r. set_prop2 r ''metadata'' ''namespace'' (namespace ident)) of
           Inl e \<Rightarrow> (Inl e, tr)
         | Inr resource \<Rightarrow>
             (case axios_delete backend (url d @ ''/api/'' @ resourceName @ ''s'')
                     \<lparr>cfg_headers = JUndefined, cfg_data = JsonText resource\<rparr> tr of
                (Inl e, tr1) \<Rightarrow> (Inl e, tr1)
              | (Inr resp, tr1) \<Rightarrow> (Inr (), tr1))))"

definition deleteProject ::
  "Dashboard \<Rightarrow> backend \<Rightarrow> IResourceIdentifier \<Rightarrow> event list \<Rightarrow> (js_error + unit) \<times> event list" where
  "deleteProject d backend ident tr = deleteResource d backend ident ''project'' ProjectConfig tr"

definition deleteFunction ::
  "Dashboard \<Rightarrow> backend \<Rightarrow> IFunctionFilter \<Rightarrow> event list \<Rightarrow> (js_error + unit) \<times> event list" where
  "deleteFunction d backend ident tr = deleteResource d backend ident ''function'' FunctionConfig tr"

subsection \<open>createFunction\<close>

definition retryIntervalMs :: nat where
  "retryIntervalMs = 1000"

definition maxRetries :: nat where
  "maxRetries = 60"

definition project_label :: string where
  "project_label = ''nuclio.io/project-name''"

text \<open>
  The two statements that bind the function to its project: the labels are created when
  they are absent (falsy), then the label is stored. The result is the configuration as
  the statements leave it; the source mutates the caller's object.
\<close>

definition ensure_labels :: "jsval \<Rightarrow> js_error + jsval" where
  "ensure_labels functionConfig =
     bind_r (get_prop functionConfig ''metadata'') (\<lambda>metadata.
     bind_r (get_prop metadata ''labels'') (\<lambda>labels.
     set_prop2 functionConfig ''metadata'' ''labels''
       (if truthy labels then labels else JObj [])))"

definition set_project_label :: "string \<Rightarrow> jsval \<Rightarrow> js_error + jsval" where
  "set_project_label pn functionConfig =
     bind_r (get_prop functionConfig ''metadata'') (\<lambda>metadata.
     bind_r (get_prop metadata ''labels'') (\<lambda>labels.
     bind_r (set_prop labels project_label (JStr pn)) (\<lambda>labels'.
     set_prop2 functionConfig ''metadata'' ''labels'' labels')))"

text \<open>
  The filter of a polling attempt, \<open>{name: functionConfig.metadata.name, namespace:
  functionConfig.metadata.namespace}\<close>; it has no \<open>projectName\<close>.
\<close>

definition poll_filter :: "jsval \<Rightarrow> js_error + IFunctionFilter" where
  "poll_filter functionConfig =
     bind_r (bind_r (get_prop functionConfig ''metadata'') (\<lambda>m. get_prop m ''name'')) (\<lambda>nm.
     bind_r (bind_r (get_prop functionConfig ''metadata'') (\<lambda>m. get_prop m ''namespace'')) (\<lambda>ns.
     Inr \<lparr>namespace = ns, name = nm, projectName = JUndefined\<rparr>))"

text \<open>
  The \<open>try\<close> block of one polling attempt: whatever is thrown inside the block leaves
  the empty list.
\<close>

definition tryGetFunctions ::
  "Dashboard \<Rightarrow> backend \<Rightarrow> jsval \<Rightarrow> event list \<Rightarrow> jsval list \<times> event list" where
  "tryGetFunctions d backend functionConfig tr =
     (case poll_filter functionConfig of
        Inl e \<Rightarrow> ([], tr)
      | Inr flt \<Rightarrow>
          (case getFunctions d backend flt tr of
             (Inl e, tr1) \<Rightarrow> ([], tr1)
           | (Inr createdFunctionConfig, tr1) \<Rightarrow> (createdFunctionConfig, tr1)))"

text \<open>The reads \<open>r.status.state\<close> and \<open>r.status.message\<close> of a function \<open>r\<close>.\<close>

definition function_state :: "jsval \<Rightarrow> js_error + jsval" where
  "function_state r = bind_r (get_prop r ''status'') (\<lambda>s. get_prop s ''state'')"

definition function_message :: "jsval \<Rightarrow> js_error + jsval" where
  "function_message r = bind_r (get_prop r ''status'') (\<lambda>s. get_prop s ''message'')"

text \<open>
  The body of the polling loop. \<open>Some r\<close> leaves the loop, with the function that is
  ready (\<open>Inr\<close>) or with what is thrown (\<open>Inl\<close>); \<open>None\<close> goes on to the next attempt,
  after the wait.
\<close>

definition pollAttempt ::
  "Dashboard \<Rightarrow> backend \<Rightarrow> jsval \<Rightarrow> event list \<Rightarrow> (js_error + jsval) option \<times> event list" where
  "pollAttempt d backend functionConfig tr =
     (case tryGetFunctions d backend functionConfig tr of
        (createdFunctionConfig, tr1) \<Rightarrow>
          (case createdFunctionConfig of
             [] \<Rightarrow> (None, tr1 @ [Sleep retryIntervalMs])
           | r0 # rest \<Rightarrow>
               (case function_state r0 of
                  Inl e \<Rightarrow> (Some (Inl e), tr1)
                | Inr state \<Rightarrow>
                    if state = JStr ''ready'' then (Some (Inr r0), tr1)
                    else if state = JStr ''error'' then
                      (case function_message r0 of
                         Inl e \<Rightarrow> (Some (Inl e), tr1)
                       | Inr msg \<Rightarrow>
                           (Some (Inl (Error (''Creation failed: '' @ to_str msg))), tr1))
                    else (None, tr1 @ [Sleep retryIntervalMs]))))"

text \<open>
  The loop itself, \<open>retryIdx\<close> counting up to \<open>maxRetries\<close>. Falling out of the loop,
  the function returns nothing: it resolves with \<open>undefined\<close>.
\<close>

function pollLoop ::
  "Dashboard \<Rightarrow> backend \<Rightarrow> jsval \<Rightarrow> nat \<Rightarrow> event list \<Rightarrow> (js_error + jsval) \<times> event list" where
  "pollLoop d backend functionConfig retryIdx tr =
     (if retryIdx < maxRetries then
        (case pollAttempt d backend functionConfig tr of
           (Some r, tr1) \<Rightarrow> (r, tr1)
         | (None, tr1) \<Rightarrow> pollLoop d backend functionConfig (retryIdx + 1) tr1)
      else (Inr JUndefined, tr))"
  by pat_completeness auto
termination
  by (relation "measure (\<lambda>(d, backend, functionConfig, retryIdx, tr). maxRetries - retryIdx)") auto

declare pollLoop.simps [simp del]

text \<open>
  \<open>createFunction\<close> returns its result, the configuration as it has left it (the
  argument is mutated in place) and the trace.
\<close>

definition createFunction ::
  "Dashboard \<Rightarrow> backend \<Rightarrow> string \<Rightarrow> jsval \<Rightarrow> event list
     \<Rightarrow> (js_error + jsval) \<times> jsval \<times> event list" where
  "createFunction d backend pn functionConfig tr =
     (case ensure_labels functionConfig of
        Inl e \<Rightarrow> (Inl e, functionConfig, tr)
      | Inr cfg1 \<Rightarrow>
          (case set_project_label pn cfg1 of
             Inl e \<Rightarrow> (Inl e, cfg1, tr)
           | Inr cfg2 \<Rightarrow>
               (case axios_post backend (url d @ ''/api/functions'') (JsonText cfg2) no_config tr of
                  (Inl e, tr1) \<Rightarrow> (Inl e, cfg2, tr1)
                | (Inr resp, tr1) \<Rightarrow>
                    (case pollLoop d backend cfg2 0 tr1 of (r, tr2) \<Rightarrow> (r, cfg2, tr2)))))"

subsection \<open>invokeFunction\<close>

text \<open>
  The headers are the caller's object when one is given (it is mutated in place; the
  model returns the result and the trace only). The method's name selects the member of
  the HTTP library; for the names in the list the call is \<open>(url, body, {headers})\<close>, for
  every other name \<open>(url, {headers})\<close>. Calling a member that is \<open>undefined\<close> throws.
\<close>

definition invokeFunction ::
  "Dashboard \<Rightarrow> backend \<Rightarrow> 'a IResourceIdentifier_scheme \<Rightarrow> IInvokeOptions \<Rightarrow> event list
     \<Rightarrow> (js_error + InvokeResult) \<times> event list" where
  "invokeFunction d backend ident options tr =
     (if name ident = JUndefined
      then (Inl (Error ''Function name must be specified in invoke''), tr)
      else
        (case bind_r (set_prop (if truthy (headers options) then headers options else JObj [])
                        ''x-nuclio-function-name'' (name ident)) (\<lambda>h.
              bind_r (set_prop h ''x-nuclio-function-namespace'' (namespace ident)) (\<lambda>h.
              bind_r (set_prop h ''x-nuclio-invoke-via''
                        (if truthy (via options) then via options else JStr ''external-ip'')) (\<lambda>h.
              if path options \<noteq> JUndefined then set_prop h ''x-nuclio-path'' (path options)
              else Inr h))) of
           Inl e \<Rightarrow> (Inl e, tr)
         | Inr hdrs \<Rightarrow>
             (let u = url d @ ''/api/function_invocations'';
                  axiosMethod = axios_member (method_name options);
                  args = (if method_name options \<in> set [''post'', ''put'', ''path'']
                          then [body options, JObj [(''headers'', hdrs)]]
                          else [JObj [(''headers'', hdrs)]])
              in case axiosMethod of
                   None \<Rightarrow> (Inl (TypeError ''axiosMethod is not a function''), tr)
                 | Some f \<Rightarrow>
                     (case axios_send backend (axios_apply f u args) tr of
                        (Inl e, tr1) \<Rightarrow> (Inl e, tr1)
                      | (Inr resp, tr1) \<Rightarrow>
                          (Inr \<lparr>statusCode = resp_status resp, result_headers = resp_headers resp,
                                result_body = resp_data resp\<rparr>, tr1)))))"

section \<open>The deployment command\<close>

text \<open>
  The host of the command: the file system (\<open>readdirSync\<close>, \<open>readJsonSync\<close>,
  \<open>readFileSync\<close> with encoding \<open>utf8\<close>), \<open>path.join\<close> and the base64 library's
  \<open>encode\<close>, each of which may throw. They are parameters of the model. The text of a
  file is what \<open>readFileSync\<close> gives and \<open>encode\<close> takes; the command does nothing else
  with it, and its type \<open>'t\<close> is left open.
\<close>

record 't host =
  readdirSync :: "string \<Rightarrow> js_error + string list"
  readJsonSync :: "string \<Rightarrow> js_error + jsval"
  readFileSync :: "string \<Rightarrow> js_error + 't"
  path_join :: "string \<Rightarrow> string \<Rightarrow> string"
  base64_encode :: "'t \<Rightarrow> js_error + string"

text \<open>
  The members of the tree item that \<open>deploy\<close> reads: the path of the function's
  directory (\<open>functionConfig.path\<close>), the project's name and the dashboard.
\<close>

record FunctionTreeItem =
  functionConfig_path :: string
  item_projectName :: string
  dashboard :: Dashboard

text \<open>\<open>filename.split('.')\<close>: the pieces between the dots, at least one.\<close>

fun split_dot :: "string \<Rightarrow> string list" where
  "split_dot [] = [[]]"
| "split_dot (c # cs) =
     (if c = CHR ''.'' then [] # split_dot cs
      else (case split_dot cs of [] \<Rightarrow> [[c]] | p # ps \<Rightarrow> (c # p) # ps))"

definition getExtension :: "string \<Rightarrow> string" where
  "getExtension filename = last (split_dot filename)"

text \<open>
  The callback of \<open>forEach\<close>, on the pair of \<open>configFile\<close> and \<open>codeFile\<close>. The callback
  is an \<open>async\<close> function without \<open>await\<close>: it runs to its end within the call, and what
  it throws becomes a rejected promise that nobody reads, so the variable it was about to
  assign keeps its value.
\<close>

definition deploy_entry :: "'t host \<Rightarrow> string \<Rightarrow> jsval \<times> jsval \<Rightarrow> string \<Rightarrow> jsval \<times> jsval" where
  "deploy_entry h dir vars file =
     (case vars of (configFile, codeFile) \<Rightarrow>
        if getExtension file = ''yaml'' then
          (case readJsonSync h (path_join h dir file) of
             Inl e \<Rightarrow> (configFile, codeFile)
           | Inr v \<Rightarrow> (v, codeFile))
        else
          (case bind_r (readFileSync h (path_join h dir file)) (base64_encode h) of
             Inl e \<Rightarrow> (configFile, codeFile)
           | Inr b \<Rightarrow> (configFile, JStr b)))"

text \<open>The store \<open>configFile.spec.build['functionSourceCode'] = codeFile\<close>.\<close>

definition set_source :: "jsval \<Rightarrow> jsval \<Rightarrow> js_error + jsval" where
  "set_source configFile codeFile =
     bind_r (get_prop configFile ''spec'') (\<lambda>spec.
     bind_r (set_prop2 spec ''build'' ''functionSourceCode'' codeFile) (\<lambda>spec'.
     set_prop configFile ''spec'' spec'))"

definition deploy ::
  "'t host \<Rightarrow> backend \<Rightarrow> FunctionTreeItem \<Rightarrow> event list \<Rightarrow> (js_error + unit) \<times> event list" where
  "deploy h backend functionTreeItem tr =
     (let tr1 = tr @ [Log ''Reading files from directory''] in
      case readdirSync h (functionConfig_path functionTreeItem) of
        Inl e \<Rightarrow> (Inl e, tr1)
      | Inr files \<Rightarrow>
          (case foldl (deploy_entry h (functionConfig_path functionTreeItem))
                  (JUndefined, JUndefined) files of
             (configFile, codeFile) \<Rightarrow>
               (case set_source configFile codeFile of
                  Inl e \<Rightarrow> (Inl e, tr1)
                | Inr configFile' \<Rightarrow>
                    (case createFunction (dashboard functionTreeItem) backend
                            (item_projectName functionTreeItem) configFile'
                            (tr1 @ [Log ''Deploying function...'']) of
                       (Inl e, cfg, tr2) \<Rightarrow> (Inl e, tr2)
                     | (Inr r, cfg, tr2) \<Rightarrow>
                         (Inr (),
                          tr2 @ [Notify ''Function deployed successfully'',
                                 Log ''Function deployed successfully''])))))"

section \<open>The requests and the vocabulary of the properties\<close>

text \<open>The requests the operations build, written out.\<close>

definition name_suffix :: "jsval \<Rightarrow> string" where
  "name_suffix n = (if n \<noteq> JUndefined then ''/'' @ to_str n else [])"

definition projects_request :: "Dashboard \<Rightarrow> 'a IResourceIdentifier_scheme \<Rightarrow> request" where
  "projects_request d flt =
     \<lparr>req_method = GET, req_url = url d @ ''/api/projects'' @ name_suffix (name flt),
      req_headers = JObj [(''x-nuclio-project-namespace'', namespace flt)],
      req_data = Value JUndefined\<rparr>"

definition functions_request :: "Dashboard \<Rightarrow> IFunctionFilter \<Rightarrow> request" where
  "functions_request d flt =
     \<lparr>req_method = GET, req_url = url d @ ''/api/functions'' @ name_suffix (name flt),
      req_headers =
        JObj ((if projectName flt \<noteq> JUndefined
               then [(''x-nuclio-project-name'', projectName flt)] else [])
              @ [(''x-nuclio-function-namespace'', namespace flt)]),
      req_data = Value JUndefined\<rparr>"

definition create_request :: "Dashboard \<Rightarrow> jsval \<Rightarrow> request" where
  "create_request d functionConfig =
     \<lparr>req_method = POST, req_url = url d @ ''/api/functions'', req_headers = JUndefined,
      req_data = JsonText functionConfig\<rparr>"

text \<open>
  The resources \<open>getResources\<close> builds from a response: one new instance per key, the
  entry assigned to it.
\<close>

definition resource_of :: "resource_class \<Rightarrow> jsval \<Rightarrow> jsval" where
  "resource_of resourceClass entry = JObj (object_assign (new resourceClass) entry)"

text \<open>\<open>has_own v f x\<close>: the value \<open>v\<close> has the own property \<open>f\<close>, with value \<open>x\<close>.\<close>

definition has_own :: "jsval \<Rightarrow> string \<Rightarrow> jsval \<Rightarrow> bool" where
  "has_own v f x = (case own_entries v of None \<Rightarrow> False | Some es \<Rightarrow> map_of es f = Some x)"

text \<open>
  A function configuration of the declared type, as far as \<open>createFunction\<close> depends on
  it: an object whose \<open>metadata\<close> is an object, with \<open>labels\<close> an object or absent (falsy).
\<close>

definition is_object :: "jsval \<Rightarrow> bool" where
  "is_object v = (case v of JObj kvs \<Rightarrow> True | _ \<Rightarrow> False)"

definition typed_config :: "jsval \<Rightarrow> bool" where
  "typed_config functionConfig =
     (is_object functionConfig \<and> is_object (own_value functionConfig ''metadata'') \<and>
      (let labels = own_value (own_value functionConfig ''metadata'') ''labels''
       in is_object labels \<or> \<not> truthy labels))"

text \<open>The configuration after the two labelling statements, when both succeed.\<close>

definition labelled :: "string \<Rightarrow> jsval \<Rightarrow> jsval" where
  "labelled pn functionConfig =
     (case bind_r (ensure_labels functionConfig) (set_project_label pn) of
        Inl e \<Rightarrow> functionConfig
      | Inr c \<Rightarrow> c)"

text \<open>The labels of a configuration, \<open>functionConfig.metadata.labels\<close>.\<close>

definition labels_of :: "jsval \<Rightarrow> jsval" where
  "labels_of functionConfig = own_value (own_value functionConfig ''metadata'') ''labels''"

text \<open>The entries of the labels, none when the labels are absent.\<close>

definition label_entries :: "jsval \<Rightarrow> (string \<times> jsval) list" where
  "label_entries l = (case l of JObj kvs \<Rightarrow> kvs | _ \<Rightarrow> [])"

text \<open>The filter of the polling attempts, for a configuration whose reads do not throw.\<close>

definition config_filter :: "jsval \<Rightarrow> IFunctionFilter" where
  "config_filter functionConfig =
     \<lparr>namespace = own_value (own_value functionConfig ''metadata'') ''namespace'',
      name = own_value (own_value functionConfig ''metadata'') ''name'',
      projectName = JUndefined\<rparr>"

text \<open>The read \<open>configFile.spec.build.functionSourceCode\<close>.\<close>

definition function_source :: "jsval \<Rightarrow> js_error + jsval" where
  "function_source configFile =
     bind_r (get_prop configFile ''spec'') (\<lambda>spec.
     bind_r (get_prop spec ''build'') (\<lambda>build.
     get_prop build ''functionSourceCode''))"

section \<open>Example inputs\<close>

text \<open>Concrete inputs, on which the properties below are instantiated.\<close>

definition ex_dashboard :: Dashboard where
  "ex_dashboard = \<lparr>url = ''http://localhost:8070''\<rparr>"

definition ex_project_id :: IResourceIdentifier where
  "ex_project_id = \<lparr>namespace = JStr ''nuclio'', name = JStr ''p1''\<rparr>"

definition ex_function_id :: IFunctionFilter where
  "ex_function_id = \<lparr>namespace = JStr ''nuclio'', name = JStr ''f1'', projectName = JUndefined\<rparr>"

definition ex_namespace_projects :: IResourceIdentifier where
  "ex_namespace_projects = \<lparr>namespace = JStr ''nuclio'', name = JUndefined\<rparr>"

definition ex_namespace_functions :: IFunctionFilter where
  "ex_namespace_functions =
     \<lparr>namespace = JStr ''nuclio'', name = JUndefined, projectName = JStr ''p1''\<rparr>"

definition ex_options :: IInvokeOptions where
  "ex_options =
     \<lparr>method_name = ''get'', logLevel = JUndefined, path = JUndefined, headers = JUndefined,
      body = JUndefined, via = JUndefined\<rparr>"

definition ex_function :: "string \<Rightarrow> string \<Rightarrow> string \<Rightarrow> jsval" where
  "ex_function n st msg =
     JObj [(''metadata'', JObj [(''name'', JStr n), (''namespace'', JStr ''nuclio'')]),
           (''status'', JObj [(''state'', JStr st), (''message'', JStr msg)])]"

definition ok_response :: "jsval \<Rightarrow> response" where
  "ok_response v = \<lparr>resp_status = 200, resp_headers = JObj [], resp_data = v\<rparr>"

text \<open>A server that answers every request with one function, and one that answers with
  a map of two.\<close>

definition single_backend :: backend where
  "single_backend tr rq = Inr (ok_response (ex_function ''f1'' ''ready'' []))"



text \<open>
  A function configuration with two labels, one of them an earlier project binding; and
  servers for the polling: one on which the function stays in the state \<open>building\<close>, one
  on which its build fails, one that is not reachable.
\<close>

definition ex_config :: jsval where
  "ex_config =
     JObj [(''metadata'',
              JObj [(''name'', JStr ''f1''), (''namespace'', JStr ''nuclio''),
                    (''labels'', JObj [(''owner'', JStr ''ann''),
                                       (''nuclio.io/project-name'', JStr ''old'')])]),
           (''spec'', JObj [(''runtime'', JStr ''python:3.6''), (''build'', JObj [])])]"

definition building_backend :: backend where
  "building_backend tr rq =
     (if req_method rq = POST then Inr (ok_response JNull)
      else Inr (ok_response (ex_function ''f1'' ''building'' [])))"

definition failing_backend :: backend where
  "failing_backend tr rq =
     (if req_method rq = POST then Inr (ok_response JNull)
      else Inr (ok_response (ex_function ''f1'' ''error'' ''build failed'')))"

definition offline_backend :: backend where
  "offline_backend tr rq = Inl (TransportError ''ECONNREFUSED'')"

text \<open>
  The base64 library's \<open>encode\<close> as the library documents it, for the example hosts: a
  text is the list of its characters' codes, every character stands for one byte, and a
  text with a character above \<open>U+00FF\<close> is refused.
\<close>

definition base64_alphabet :: string where
  "base64_alphabet = ''ABCDEFGHIJKLMNOPQRSTUVWXYZabcdefghijklmnopqrstuvwxyz0123456789+/''"

fun base64_groups :: "nat list \<Rightarrow> string" where
  "base64_groups [] = []"
| "base64_groups [a] =
     [base64_alphabet ! (a div 4), base64_alphabet ! ((a mod 4) * 16), CHR ''='', CHR ''='']"
| "base64_groups [a, b] =
     [base64_alphabet ! (a div 4), base64_alphabet ! ((a mod 4) * 16 + b div 16),
      base64_alphabet ! ((b mod 16) * 4), CHR ''='']"
| "base64_groups (a # b # c # rest) =
     [base64_alphabet ! (a div 4), base64_alphabet ! ((a mod 4) * 16 + b div 16),
      base64_alphabet ! ((b mod 16) * 4 + c div 64), base64_alphabet ! (c mod 64)]
     @ base64_groups rest"

definition library_encode :: "nat list \<Rightarrow> js_error + string" where
  "library_encode text =
     (if list_all (\<lambda>c. c < 256) text then Inr (base64_groups text)
      else Inl (Error
             ''The string to be encoded contains characters outside of the Latin1 range.''))"

text \<open>
  A function directory with a configuration and a handler; the same directory with a
  configuration file that is not JSON text, with a configuration that has no build
  section, and with a handler that has a character above \<open>U+00FF\<close> (a comment
  \<open># \<close> followed by \<open>U+263A\<close>).
\<close>

definition ex_handler :: "nat list" where
  "ex_handler = map of_char ''def handler(context, event): return 1''"

definition ex_host :: "nat list host" where
  "ex_host =
     \<lparr>readdirSync = (\<lambda>dir. Inr [''function.yaml'', ''handler.py'']),
      readJsonSync = (\<lambda>file. Inr ex_config),
      readFileSync = (\<lambda>file. Inr ex_handler),
      path_join = (\<lambda>dir file. dir @ ''/'' @ file),
      base64_encode = library_encode\<rparr>"

definition yaml_text_host :: "nat list host" where
  "yaml_text_host =
     ex_host\<lparr>readJsonSync :=
       (\<lambda>file. Inl (SystemError ''Unexpected token a in JSON at position 0''))\<rparr>"

definition no_build_host :: "nat list host" where
  "no_build_host =
     ex_host\<lparr>readJsonSync := (\<lambda>file.
       Inr (JObj [(''metadata'', JObj [(''name'', JStr ''f1''), (''namespace'', JStr ''nuclio'')]),
                  (''spec'', JObj [(''runtime'', JStr ''python:3.6'')])]))\<rparr>"

definition wide_text_host :: "nat list host" where
  "wide_text_host = ex_host\<lparr>readFileSync := (\<lambda>file. Inr [35, 32, 9786])\<rparr>"

text \<open>A server that answers every poll with a function whose status is \<open>null\<close>.\<close>

definition null_status_backend :: backend where
  "null_status_backend tr rq =
     (if req_method rq = POST then Inr (ok_response JNull)
      else Inr (ok_response
             (JObj [(''metadata'', JObj [(''name'', JStr ''f1''), (''namespace'', JStr ''nuclio'')]),
                    (''status'', JNull)])))"

definition ex_item :: FunctionTreeItem where
  "ex_item =
     \<lparr>functionConfig_path = ''/work/f1'', item_projectName = ''p1'',
      dashboard = ex_dashboard\<rparr>"

definition ex_patch_options :: IInvokeOptions where
  "ex_patch_options =
     \<lparr>method_name = ''patch'', logLevel = JUndefined, path = JUndefined, headers = JUndefined,
      body = JStr ''payload'', via = JUndefined\<rparr>"

section \<open>Properties of the values\<close>

lemma set_key_order: "set (key_order ks) = set ks"
  by (auto simp: key_order_def)


lemma key_order_single: "key_order [''single''] = [''single'']"
  by (simp add: key_order_def is_index_def is_digit_def)

lemma map_of_tabulate:
  "map_of (map (\<lambda>k. (k, f k)) ks) k = (if k \<in> set ks then Some (f k) else None)"
  by (induction ks) auto

lemma own_entries_obj_lookup:
  assumes "own_entries (JObj kvs) = Some es"
  shows "map_of es k = map_of kvs k"
proof -
  have mem: "k \<in> set (key_order (remdups (map fst kvs))) \<longleftrightarrow> map_of kvs k \<noteq> None"
    by (simp add: set_key_order map_of_eq_None_iff)
  from assms have es:
    "es = map (\<lambda>k. (k, case map_of kvs k of None \<Rightarrow> JUndefined | Some v \<Rightarrow> v))
            (key_order (remdups (map fst kvs)))"
    by simp
  show ?thesis
    unfolding es map_of_tabulate mem by (cases "map_of kvs k") simp_all
qed

lemma own_value_obj:
  "own_value (JObj kvs) k = (case map_of kvs k of Some v \<Rightarrow> v | None \<Rightarrow> JUndefined)"
  using own_entries_obj_lookup[of kvs _ k] by (simp add: own_value_def)

lemma has_own_obj: "has_own (JObj kvs) f x \<longleftrightarrow> map_of kvs f = Some x"
  using own_entries_obj_lookup[of kvs _ f] by (simp add: has_own_def)

lemma object_keys_obj: "object_keys (JObj kvs) = Inr (key_order (remdups (map fst kvs)))"
  by (simp add: object_keys_def comp_def)

lemma store_lookup:
  "map_of (store k x kvs) f = (if f = k \<and> k \<noteq> ''__proto__'' then Some x else map_of kvs f)"
  by (simp add: store_def update_conv')

lemma foldl_store_tabulate:
  "map_of (foldl (\<lambda>t (k, x). store k x t) target (map (\<lambda>k. (k, g k)) ks)) f =
     (if f \<in> set ks \<and> f \<noteq> ''__proto__'' then Some (g f) else map_of target f)"
proof (induction ks arbitrary: target)
  case Nil
  show ?case by simp
next
  case (Cons k ks)
  show ?case by (simp add: Cons.IH store_lookup)
qed

text \<open>
  \<open>Object.assign\<close> with an object as the source: the source's properties win, but for
  \<open>__proto__\<close>, which is not carried.
\<close>

lemma object_assign_obj:
  "map_of (object_assign target (JObj fs)) f =
     (if f \<noteq> ''__proto__'' \<and> map_of fs f \<noteq> None then map_of fs f else map_of target f)"
proof -
  have mem: "f \<in> set (key_order (remdups (map fst fs))) \<longleftrightarrow> map_of fs f \<noteq> None"
    by (simp add: set_key_order map_of_eq_None_iff)
  show ?thesis
    unfolding object_assign_def own_entries.simps option.case foldl_store_tabulate mem
    by (cases "map_of fs f") simp_all
qed

lemma resource_of_fields:
  "\<exists>l. resource_of rc (JObj fs) = JObj l \<and>
       (\<forall>f. map_of l f =
             (if f \<noteq> ''__proto__'' \<and> map_of fs f \<noteq> None then map_of fs f
              else map_of (new rc) f))"
  by (simp add: resource_of_def object_assign_obj)

lemma resource_of_nothing:
  "resource_of rc JNull = JObj (new rc)" "resource_of rc JUndefined = JObj (new rc)"
  by (simp_all add: resource_of_def object_assign_def)

section \<open>Reading resources\<close>

text \<open>
  \<open>getResources\<close> issues exactly one request. A rejection is passed on; with a name in
  the filter the response gives one resource, without one a resource per key.
\<close>

lemma getResources_call:
  "getResources d backend flt rn rc (JObj hs) tr =
    (let rq = \<lparr>req_method = GET, req_url = url d @ ''/api/'' @ rn @ ''s'' @ name_suffix (name flt),
                req_headers =
                  JObj (AList.update (''x-nuclio-'' @ rn @ ''-namespace'') (namespace flt) hs),
                req_data = Value JUndefined\<rparr>
     in case backend tr rq of
          Inl e \<Rightarrow> (Inl e, tr @ [Call rq])
        | Inr resp \<Rightarrow>
           (if name flt \<noteq> JUndefined
            then (Inr [resource_of rc (resp_data resp)], tr @ [Call rq])
            else case object_keys (resp_data resp) of
                   Inl e \<Rightarrow> (Inl e, tr @ [Call rq])
                 | Inr names \<Rightarrow>
                     (Inr (map (\<lambda>n. resource_of rc (own_value (resp_data resp) n)) names),
                      tr @ [Call rq])))"
  by (simp add: getResources_def axios_get_def axios_send_def name_suffix_def Let_def
       store_def object_keys_obj key_order_single own_value_obj resource_of_def
       split: sum.splits)

lemma getResources_undefined:
  "getResources d backend flt rn rc JUndefined tr = getResources d backend flt rn rc (JObj []) tr"
  by (simp add: getResources_def)

lemma getProjects_call:
  "getProjects d backend flt tr =
    (case backend tr (projects_request d flt) of
       Inl e \<Rightarrow> (Inl e, tr @ [Call (projects_request d flt)])
     | Inr resp \<Rightarrow>
        (if name flt \<noteq> JUndefined
         then (Inr [resource_of ProjectConfig (resp_data resp)],
               tr @ [Call (projects_request d flt)])
         else case object_keys (resp_data resp) of
                Inl e \<Rightarrow> (Inl e, tr @ [Call (projects_request d flt)])
              | Inr names \<Rightarrow>
                  (Inr (map (\<lambda>n. resource_of ProjectConfig (own_value (resp_data resp) n)) names),
                   tr @ [Call (projects_request d flt)])))"
  by (auto simp: getProjects_def getResources_undefined getResources_call projects_request_def
        Let_def split: sum.splits)

lemma getFunctions_call:
  "getFunctions d backend flt tr =
    (case backend tr (functions_request d flt) of
       Inl e \<Rightarrow> (Inl e, tr @ [Call (functions_request d flt)])
     | Inr resp \<Rightarrow>
        (if name flt \<noteq> JUndefined
         then (Inr [resource_of FunctionConfig (resp_data resp)],
               tr @ [Call (functions_request d flt)])
         else case object_keys (resp_data resp) of
                Inl e \<Rightarrow> (Inl e, tr @ [Call (functions_request d flt)])
              | Inr names \<Rightarrow>
                  (Inr (map (\<lambda>n. resource_of FunctionConfig (own_value (resp_data resp) n)) names),
                   tr @ [Call (functions_request d flt)])))"
  by (auto simp: getFunctions_def getResources_call functions_request_def Let_def store_def
        split: sum.splits)

text \<open>
  C5. With a name in the filter, \<open>getProjects\<close> and \<open>getFunctions\<close> each return exactly one
  element, the resource built from the response's data; a rejected request is passed on,
  with no element at all. The resource built from data that is an object is an object
  that has every property of the data with the data's value (but \<open>__proto__\<close>, which is
  not carried), and for every other name what a new instance of the class has; from
  \<open>null\<close> it is the new instance.
\<close>

theorem named_filter_single_resource:
  "(name pf \<noteq> JUndefined \<longrightarrow>
      getProjects d backend pf tr =
        (case backend tr (projects_request d pf) of
           Inl e \<Rightarrow> (Inl e, tr @ [Call (projects_request d pf)])
         | Inr resp \<Rightarrow> (Inr [resource_of ProjectConfig (resp_data resp)],
                        tr @ [Call (projects_request d pf)]))) \<and>
   (name ff \<noteq> JUndefined \<longrightarrow>
      getFunctions d backend ff tr =
        (case backend tr (functions_request d ff) of
           Inl e \<Rightarrow> (Inl e, tr @ [Call (functions_request d ff)])
         | Inr resp \<Rightarrow> (Inr [resource_of FunctionConfig (resp_data resp)],
                        tr @ [Call (functions_request d ff)]))) \<and>
   (\<exists>l. resource_of rc (JObj fs) = JObj l \<and>
        (\<forall>f. map_of l f =
              (if f \<noteq> ''__proto__'' \<and> map_of fs f \<noteq> None then map_of fs f
               else map_of (new rc) f))) \<and>
   resource_of rc JNull = JObj (new rc)"
proof (intro conjI impI)
  assume "name pf \<noteq> JUndefined"
  then show "getProjects d backend pf tr =
        (case backend tr (projects_request d pf) of
           Inl e \<Rightarrow> (Inl e, tr @ [Call (projects_request d pf)])
         | Inr resp \<Rightarrow> (Inr [resource_of ProjectConfig (resp_data resp)],
                        tr @ [Call (projects_request d pf)]))"
    by (simp add: getProjects_call split: sum.splits)
next
  assume "name ff \<noteq> JUndefined"
  then show "getFunctions d backend ff tr =
        (case backend tr (functions_request d ff) of
           Inl e \<Rightarrow> (Inl e, tr @ [Call (functions_request d ff)])
         | Inr resp \<Rightarrow> (Inr [resource_of FunctionConfig (resp_data resp)],
                        tr @ [Call (functions_request d ff)]))"
    by (simp add: getFunctions_call split: sum.splits)
next
  show "\<exists>l. resource_of rc (JObj fs) = JObj l \<and>
        (\<forall>f. map_of l f =
              (if f \<noteq> ''__proto__'' \<and> map_of fs f \<noteq> None then map_of fs f
               else map_of (new rc) f))"
    by (rule resource_of_fields)
next
  show "resource_of rc JNull = JObj (new rc)"
    by (rule resource_of_nothing)
qed

lemma key_order_names:
  "\<not> is_index ''metadata''" "\<not> is_index ''status''" "\<not> is_index ''f1''" "\<not> is_index ''f2''"
  "\<not> is_index ''name''" "\<not> is_index ''namespace''" "\<not> is_index ''state''" "\<not> is_index ''message''"
  by (simp_all add: is_index_def is_digit_def)

lemma ex_function_resource:
  "resource_of FunctionConfig (ex_function n st msg) =
     JObj [(''metadata'', JObj [(''name'', JStr n), (''namespace'', JStr ''nuclio'')]),
           (''spec'', JObj [(''build'', JObj [])]),
           (''status'', JObj [(''state'', JStr st), (''message'', JStr msg)])]"
  "resource_of ProjectConfig (ex_function n st msg) =
     JObj [(''metadata'', JObj [(''name'', JStr n), (''namespace'', JStr ''nuclio'')]),
           (''spec'', JObj []),
           (''status'', JObj [(''state'', JStr st), (''message'', JStr msg)])]"
  by (simp_all add: resource_of_def object_assign_def ex_function_def key_order_def
        key_order_names store_def)

theorem named_filter_single_resource_witness:
  "name ex_project_id \<noteq> JUndefined \<and> name ex_function_id \<noteq> JUndefined \<and>
   getProjects ex_dashboard single_backend ex_project_id [] =
     (Inr [JObj [(''metadata'', JObj [(''name'', JStr ''f1''), (''namespace'', JStr ''nuclio'')]),
                 (''spec'', JObj []),
                 (''status'', JObj [(''state'', JStr ''ready''), (''message'', JStr [])])]],
      [Call \<lparr>req_method = GET, req_url = ''http://localhost:8070/api/projects/p1'',
             req_headers = JObj [(''x-nuclio-project-namespace'', JStr ''nuclio'')],
             req_data = Value JUndefined\<rparr>]) \<and>
   getFunctions ex_dashboard single_backend ex_function_id [] =
     (Inr [JObj [(''metadata'', JObj [(''name'', JStr ''f1''), (''namespace'', JStr ''nuclio'')]),
                 (''spec'', JObj [(''build'', JObj [])]),
                 (''status'', JObj [(''state'', JStr ''ready''), (''message'', JStr [])])]],
      [Call \<lparr>req_method = GET, req_url = ''http://localhost:8070/api/functions/f1'',
             req_headers = JObj [(''x-nuclio-function-namespace'', JStr ''nuclio'')],
             req_data = Value JUndefined\<rparr>])"
proof -
  have h1: "name ex_project_id \<noteq> JUndefined" by (simp add: ex_project_id_def)
  have h2: "name ex_function_id \<noteq> JUndefined" by (simp add: ex_function_id_def)
  note t = named_filter_single_resource
             [where pf = ex_project_id and ff = ex_function_id and d = ex_dashboard
                and backend = single_backend and tr = "[]"]
  from t h1 have p: "getProjects ex_dashboard single_backend ex_project_id [] =
     (Inr [resource_of ProjectConfig (ex_function ''f1'' ''ready'' [])],
      [Call (projects_request ex_dashboard ex_project_id)])"
    by (simp add: single_backend_def ok_response_def)
  from t h2 have f: "getFunctions ex_dashboard single_backend ex_function_id [] =
     (Inr [resource_of FunctionConfig (ex_function ''f1'' ''ready'' [])],
      [Call (functions_request ex_dashboard ex_function_id)])"
    by (simp add: single_backend_def ok_response_def)
  have rp: "projects_request ex_dashboard ex_project_id =
      \<lparr>req_method = GET, req_url = ''http://localhost:8070/api/projects/p1'',
             req_headers = JObj [(''x-nuclio-project-namespace'', JStr ''nuclio'')],
             req_data = Value JUndefined\<rparr>"
    by (simp add: projects_request_def ex_dashboard_def ex_project_id_def name_suffix_def)
  have rf: "functions_request ex_dashboard ex_function_id =
      \<lparr>req_method = GET, req_url = ''http://localhost:8070/api/functions/f1'',
             req_headers = JObj [(''x-nuclio-function-namespace'', JStr ''nuclio'')],
             req_data = Value JUndefined\<rparr>"
    by (simp add: functions_request_def ex_dashboard_def ex_function_id_def name_suffix_def)
  from h1 h2 p f show ?thesis
    unfolding rp rf ex_function_resource by (intro conjI)
qed







section \<open>Operations that need a name\<close>

text \<open>
  C7. With \<open>id.name\<close> undefined, \<open>deleteProject\<close>, \<open>deleteFunction\<close> and
  \<open>invokeFunction\<close> throw their error and leave the trace as it was: no request is issued.
\<close>

theorem delete_invoke_require_name:
  assumes "name pid = JUndefined" and "name fid = JUndefined" and "name iid = JUndefined"
  shows "deleteProject d backend pid tr =
           (Inl (Error ''Resource name must be specified in delete''), tr) \<and>
         deleteFunction d backend fid tr =
           (Inl (Error ''Resource name must be specified in delete''), tr) \<and>
         invokeFunction d backend iid options tr =
           (Inl (Error ''Function name must be specified in invoke''), tr)"
  using assms
  by (simp add: deleteProject_def deleteFunction_def deleteResource_def invokeFunction_def)

theorem delete_invoke_require_name_witness:
  "name ex_namespace_projects = JUndefined \<and> name ex_namespace_functions = JUndefined \<and>
   deleteProject ex_dashboard single_backend ex_namespace_projects [] =
     (Inl (Error ''Resource name must be specified in delete''), []) \<and>
   deleteFunction ex_dashboard single_backend ex_namespace_functions [] =
     (Inl (Error ''Resource name must be specified in delete''), []) \<and>
   invokeFunction ex_dashboard single_backend ex_namespace_functions ex_options [] =
     (Inl (Error ''Function name must be specified in invoke''), [])"
  using delete_invoke_require_name
          [of ex_namespace_projects ex_namespace_functions ex_namespace_functions
              ex_dashboard single_backend "[]" ex_options]
  by (simp add: ex_namespace_projects_def ex_namespace_functions_def)

section \<open>Creating a function\<close>

lemma typed_configE:
  assumes "typed_config cfg"
  obtains fs md where "cfg = JObj fs" and "map_of fs ''metadata'' = Some (JObj md)"
    and "is_object (own_value (JObj md) ''labels'') \<or> \<not> truthy (own_value (JObj md) ''labels'')"
proof -
  from assms obtain fs where fs: "cfg = JObj fs"
    by (auto simp: typed_config_def is_object_def split: jsval.splits)
  from assms fs obtain md where md: "own_value (JObj fs) ''metadata'' = JObj md"
    by (auto simp: typed_config_def is_object_def split: jsval.splits)
  then have "map_of fs ''metadata'' = Some (JObj md)"
    by (auto simp: own_value_obj split: option.splits)
  moreover from assms fs md
  have "is_object (own_value (JObj md) ''labels'') \<or> \<not> truthy (own_value (JObj md) ''labels'')"
    by (simp add: typed_config_def Let_def)
  ultimately show ?thesis using that fs by blast
qed

lemma labelled_explicit:
  assumes "cfg = JObj fs" and "map_of fs ''metadata'' = Some (JObj md)"
    and "is_object (own_value (JObj md) ''labels'') \<or> \<not> truthy (own_value (JObj md) ''labels'')"
  shows "bind_r (ensure_labels cfg) (set_project_label pn) =
           Inr (JObj (AList.update ''metadata''
                  (JObj (AList.update ''labels''
                     (JObj (AList.update project_label (JStr pn)
                        (label_entries (own_value (JObj md) ''labels''))))
                     md))
                  fs))"
  using assms
  apply (cases "own_value (JObj md) ''labels''")
  apply (auto simp: ensure_labels_def set_project_label_def bind_r_def set_prop2_def own_value_obj
       update_conv' label_entries_def is_object_def store_def project_label_def
       split: option.splits jsval.splits)
  done

lemma labelled_typed:
  assumes "typed_config cfg"
  shows "bind_r (ensure_labels cfg) (set_project_label pn) = Inr (labelled pn cfg)"
proof -
  from assms obtain fs md where "cfg = JObj fs" and "map_of fs ''metadata'' = Some (JObj md)"
    and "is_object (own_value (JObj md) ''labels'') \<or> \<not> truthy (own_value (JObj md) ''labels'')"
    by (rule typed_configE)
  from labelled_explicit[OF this] show ?thesis by (simp add: labelled_def)
qed

lemma labelled_shape:
  assumes "typed_config cfg"
  obtains fs md where "cfg = JObj fs" and "map_of fs ''metadata'' = Some (JObj md)"
    and "labelled pn cfg =
           JObj (AList.update ''metadata''
                  (JObj (AList.update ''labels''
                     (JObj (AList.update project_label (JStr pn)
                        (label_entries (own_value (JObj md) ''labels''))))
                     md))
                  fs)"
proof -
  from assms obtain fs md where a: "cfg = JObj fs" "map_of fs ''metadata'' = Some (JObj md)"
    "is_object (own_value (JObj md) ''labels'') \<or> \<not> truthy (own_value (JObj md) ''labels'')"
    by (rule typed_configE)
  from labelled_explicit[OF a] have "labelled pn cfg =
           JObj (AList.update ''metadata''
                  (JObj (AList.update ''labels''
                     (JObj (AList.update project_label (JStr pn)
                        (label_entries (own_value (JObj md) ''labels''))))
                     md))
                  fs)"
    by (simp add: labelled_def)
  with a(1,2) show ?thesis by (rule that)
qed

lemma createFunction_typed:
  assumes "typed_config cfg"
  shows "createFunction d backend pn cfg tr =
           (case backend tr (create_request d (labelled pn cfg)) of
              Inl e \<Rightarrow> (Inl e, labelled pn cfg, tr @ [Call (create_request d (labelled pn cfg))])
            | Inr resp \<Rightarrow>
                (case pollLoop d backend (labelled pn cfg) 0
                        (tr @ [Call (create_request d (labelled pn cfg))]) of
                   (r, tr2) \<Rightarrow> (r, labelled pn cfg, tr2)))"
proof -
  from labelled_typed[OF assms, of pn] obtain cfg1
    where 1: "ensure_labels cfg = Inr cfg1" and 2: "set_project_label pn cfg1 = Inr (labelled pn cfg)"
    by (auto simp: bind_r_def split: sum.splits)
  show ?thesis
    by (simp add: createFunction_def 1 2 axios_post_def axios_send_def no_config_def
          create_request_def split: sum.splits)
qed

lemma poll_filter_labelled:
  assumes "typed_config cfg"
  shows "poll_filter (labelled pn cfg) = Inr (config_filter cfg)"
proof -
  from assms obtain fs md where a: "cfg = JObj fs" "map_of fs ''metadata'' = Some (JObj md)"
    and l: "labelled pn cfg =
           JObj (AList.update ''metadata''
                  (JObj (AList.update ''labels''
                     (JObj (AList.update project_label (JStr pn)
                        (label_entries (own_value (JObj md) ''labels''))))
                     md))
                  fs)"
    by (rule labelled_shape)
  show ?thesis
    using a(2)
    by (simp add: l[unfolded a(1)] a(1) poll_filter_def bind_r_def config_filter_def
          own_value_obj update_conv')
qed

lemma getFunctions_trace:
  "snd (getFunctions d backend flt tr) = tr @ [Call (functions_request d flt)]"
  by (simp add: getFunctions_call split: sum.splits)

lemma tryGetFunctions_labelled:
  assumes "typed_config cfg"
  shows "tryGetFunctions d backend (labelled pn cfg) tr =
           (case getFunctions d backend (config_filter cfg) tr of
              (Inl e, tr1) \<Rightarrow> ([], tr1)
            | (Inr rs, tr1) \<Rightarrow> (rs, tr1))"
  by (simp add: tryGetFunctions_def poll_filter_labelled[OF assms])

lemma pollLoop_step:
  "retryIdx < maxRetries \<Longrightarrow>
   pollLoop d backend functionConfig retryIdx tr =
     (case pollAttempt d backend functionConfig tr of
        (Some r, tr1) \<Rightarrow> (r, tr1)
      | (None, tr1) \<Rightarrow> pollLoop d backend functionConfig (retryIdx + 1) tr1)"
  by (subst pollLoop.simps) simp

lemma pollLoop_exhausted:
  "\<not> retryIdx < maxRetries \<Longrightarrow>
   pollLoop d backend functionConfig retryIdx tr = (Inr JUndefined, tr)"
  by (subst pollLoop.simps) simp

lemma get_prop_readable:
  "get_prop v k = Inr x \<Longrightarrow> \<exists>y. get_prop v k' = Inr y"
  by (cases v) auto

lemma function_message_readable:
  assumes "function_state r = Inr s"
  shows "\<exists>msg. function_message r = Inr msg"
proof -
  from assms obtain st where st: "get_prop r ''status'' = Inr st" and "get_prop st ''state'' = Inr s"
    by (auto simp: function_state_def bind_r_def split: sum.splits)
  from get_prop_readable[OF this(2)] obtain msg where "get_prop st ''message'' = Inr msg"
    by blast
  with st show ?thesis by (simp add: function_message_def bind_r_def)
qed


lemma pollAttempt_error:
  assumes "typed_config cfg"
    and "getFunctions d backend (config_filter cfg) tr = (Inr (r0 # rest), tr1)"
    and "function_state r0 = Inr (JStr ''error'')"
    and "function_message r0 = Inr msg"
  shows "pollAttempt d backend (labelled pn cfg) tr =
           (Some (Inl (Error (''Creation failed: '' @ to_str msg))), tr1)"
  using assms(2-4) by (simp add: pollAttempt_def tryGetFunctions_labelled[OF assms(1)])

lemma pollAttempt_quiet:
  assumes "typed_config cfg"
    and quiet: "\<forall>tr' rs tr1. getFunctions d backend (config_filter cfg) tr' = (Inr rs, tr1) \<and> rs \<noteq> []
                  \<longrightarrow> (\<exists>s. function_state (hd rs) = Inr s \<and> s \<noteq> JStr ''ready'' \<and> s \<noteq> JStr ''error'')"
  shows "pollAttempt d backend (labelled pn cfg) tr =
           (None, tr @ [Call (functions_request d (config_filter cfg)), Sleep retryIntervalMs])"
proof -
  obtain x tr1 where g: "getFunctions d backend (config_filter cfg) tr = (x, tr1)"
    by (cases "getFunctions d backend (config_filter cfg) tr")
  with getFunctions_trace[of d backend "config_filter cfg" tr]
  have tr1: "tr1 = tr @ [Call (functions_request d (config_filter cfg))]" by simp
  show ?thesis
  proof (cases x)
    case (Inl e)
    with g tr1 show ?thesis
      by (simp add: pollAttempt_def tryGetFunctions_labelled[OF assms(1)])
  next
    case (Inr rs)
    show ?thesis
    proof (cases rs)
      case Nil
      with g tr1 Inr show ?thesis
        by (simp add: pollAttempt_def tryGetFunctions_labelled[OF assms(1)])
    next
      case (Cons r0 rest)
      with quiet g Inr obtain s where "function_state r0 = Inr s" "s \<noteq> JStr ''ready''" "s \<noteq> JStr ''error''"
        by fastforce
      with g tr1 Inr Cons show ?thesis
        by (simp add: pollAttempt_def tryGetFunctions_labelled[OF assms(1)])
    qed
  qed
qed

lemma pollLoop_quiet:
  assumes "typed_config cfg"
    and quiet: "\<forall>tr' rs tr1. getFunctions d backend (config_filter cfg) tr' = (Inr rs, tr1) \<and> rs \<noteq> []
                  \<longrightarrow> (\<exists>s. function_state (hd rs) = Inr s \<and> s \<noteq> JStr ''ready'' \<and> s \<noteq> JStr ''error'')"
  shows "pollLoop d backend (labelled pn cfg) i tr =
           (Inr JUndefined,
            tr @ concat (replicate (maxRetries - i)
                   [Call (functions_request d (config_filter cfg)), Sleep retryIntervalMs]))"
proof (induction "maxRetries - i" arbitrary: i tr)
  case 0
  then show ?case by (simp add: pollLoop_exhausted)
next
  case (Suc n)
  then have lt: "i < maxRetries" and n: "n = maxRetries - (i + 1)" by simp_all
  from Suc(2) have rep: "maxRetries - i = Suc (maxRetries - (i + 1))" by simp
  show ?case
    unfolding pollLoop_step[OF lt] pollAttempt_quiet[OF assms] rep
    using Suc(1)[OF n] by simp
qed

text \<open>
  C1. When a polling attempt (any attempt \<open>i\<close> of the loop, at any trace) gets a function
  whose \<open>status.state\<close> is \<open>error\<close>, the loop ends there with the error
  \<open>Creation failed: \<close> followed by the server's status message, and the trace ends with
  that attempt's request: no wait and no further attempt follow. When it is the first
  attempt after the create request, \<open>createFunction\<close> has issued the create request and
  exactly one polling request.
\<close>

theorem error_state_fails_at_once:
  assumes "typed_config cfg" and "i < maxRetries"
    and "getFunctions d backend (config_filter cfg) tr' = (Inr (r0 # rest), tr1)"
    and "function_state r0 = Inr (JStr ''error'')"
  shows "\<exists>msg. function_message r0 = Inr msg \<and>
           pollLoop d backend (labelled pn cfg) i tr' =
             (Inl (Error (''Creation failed: '' @ to_str msg)),
              tr' @ [Call (functions_request d (config_filter cfg))]) \<and>
           (backend tr (create_request d (labelled pn cfg)) = Inr resp \<and>
            tr' = tr @ [Call (create_request d (labelled pn cfg))] \<longrightarrow>
            createFunction d backend pn cfg tr =
              (Inl (Error (''Creation failed: '' @ to_str msg)), labelled pn cfg,
               tr @ [Call (create_request d (labelled pn cfg)),
                     Call (functions_request d (config_filter cfg))]))"
proof -
  from function_message_readable[OF assms(4)] obtain msg where msg: "function_message r0 = Inr msg"
    by blast
  from getFunctions_trace[of d backend "config_filter cfg" tr'] assms(3)
  have tr1: "tr1 = tr' @ [Call (functions_request d (config_filter cfg))]" by simp
  have loop: "\<And>j. j < maxRetries \<Longrightarrow> pollLoop d backend (labelled pn cfg) j tr' =
             (Inl (Error (''Creation failed: '' @ to_str msg)),
              tr' @ [Call (functions_request d (config_filter cfg))])"
    by (simp add: pollLoop_step pollAttempt_error[OF assms(1,3,4) msg] tr1)
  have "0 < maxRetries" by (simp add: maxRetries_def)
  from loop[OF this] loop[OF assms(2)] msg show ?thesis
    by (auto simp: createFunction_typed[OF assms(1)])
qed

text \<open>
  C2, amended. When the create request is accepted and every query of the polling filter
  either fails, or gives nothing, or gives a function whose \<open>status.state\<close> can be read
  and is neither \<open>ready\<close> nor \<open>error\<close>, \<open>createFunction\<close> issues the create request, then
  60 times a polling request and a wait of 1000 ms, and resolves with \<open>undefined\<close>: no
  value and no error.
\<close>

theorem silent_timeout:
  assumes "typed_config cfg"
    and "backend tr (create_request d (labelled pn cfg)) = Inr resp"
    and "\<forall>tr' rs tr1. getFunctions d backend (config_filter cfg) tr' = (Inr rs, tr1) \<and> rs \<noteq> []
           \<longrightarrow> (\<exists>s. function_state (hd rs) = Inr s \<and> s \<noteq> JStr ''ready'' \<and> s \<noteq> JStr ''error'')"
  shows "createFunction d backend pn cfg tr =
           (Inr JUndefined, labelled pn cfg,
            tr @ [Call (create_request d (labelled pn cfg))]
               @ concat (replicate 60 [Call (functions_request d (config_filter cfg)), Sleep 1000]))"
  using pollLoop_quiet[OF assms(1,3), of pn 0 "tr @ [Call (create_request d (labelled pn cfg))]"]
    assms(2)
  by (simp only: createFunction_typed[OF assms(1)] sum.case prod.case maxRetries_def
        retryIntervalMs_def diff_zero append_assoc)

lemma pollAttempt_extends:
  "\<exists>evs. snd (pollAttempt d backend c tr) = tr @ evs"
proof -
  have t: "\<exists>evs. snd (tryGetFunctions d backend c tr) = tr @ evs"
  proof (cases "poll_filter c")
    case (Inl e)
    then show ?thesis by (simp add: tryGetFunctions_def)
  next
    case (Inr flt)
    with getFunctions_trace[of d backend flt tr] show ?thesis
      by (cases "getFunctions d backend flt tr") (auto simp: tryGetFunctions_def split: sum.splits)
  qed
  then obtain evs where "snd (tryGetFunctions d backend c tr) = tr @ evs" by blast
  then show ?thesis
    by (cases "tryGetFunctions d backend c tr")
       (auto simp: pollAttempt_def split: list.splits sum.splits)
qed

lemma pollLoop_extends:
  "\<exists>evs. snd (pollLoop d backend c i tr) = tr @ evs"
proof (induction d backend c i tr rule: pollLoop.induct)
  case (1 d backend c i tr)
  show ?case
  proof (cases "i < maxRetries")
    case False
    then show ?thesis by (simp add: pollLoop_exhausted)
  next
    case True
    obtain o1 tr1 where a: "pollAttempt d backend c tr = (o1, tr1)"
      by (cases "pollAttempt d backend c tr")
    with pollAttempt_extends[of d backend c tr] obtain evs where tr1: "tr1 = tr @ evs" by auto
    show ?thesis
    proof (cases o1)
      case None
      with 1[OF True a[symmetric]] a tr1 True show ?thesis
        by (auto simp: pollLoop_step)
    next
      case (Some r)
      with a tr1 True show ?thesis by (simp add: pollLoop_step)
    qed
  qed
qed




text \<open>
  C8. The configuration that \<open>createFunction\<close> sends has the project label bound to the
  project's name, whatever the label was before (and whether or not there were labels):
  the first event of the call is the create request whose body is the text of the
  labelled configuration, which is also the state the argument is left in.
\<close>

theorem project_label_before_create:
  assumes "typed_config cfg"
  shows "has_own (labels_of (labelled pn cfg)) project_label (JStr pn) \<and>
         (\<exists>r evs. createFunction d backend pn cfg tr =
            (r, labelled pn cfg, tr @ Call (create_request d (labelled pn cfg)) # evs))"
proof -
  from assms obtain fs md where a: "cfg = JObj fs" "map_of fs ''metadata'' = Some (JObj md)"
    and l: "labelled pn cfg =
           JObj (AList.update ''metadata''
                  (JObj (AList.update ''labels''
                     (JObj (AList.update project_label (JStr pn)
                        (label_entries (own_value (JObj md) ''labels''))))
                     md))
                  fs)"
    by (rule labelled_shape)
  have lab: "has_own (labels_of (labelled pn cfg)) project_label (JStr pn)"
    by (simp add: l labels_of_def own_value_obj update_conv' has_own_obj)
  obtain r tr2 where p: "pollLoop d backend (labelled pn cfg) 0
                          (tr @ [Call (create_request d (labelled pn cfg))]) = (r, tr2)"
    by (cases "pollLoop d backend (labelled pn cfg) 0 (tr @ [Call (create_request d (labelled pn cfg))])")
  with pollLoop_extends[of d backend "labelled pn cfg" 0 "tr @ [Call (create_request d (labelled pn cfg))]"]
  obtain evs where "tr2 = tr @ Call (create_request d (labelled pn cfg)) # evs" by auto
  with p lab show ?thesis
    by (cases "backend tr (create_request d (labelled pn cfg))")
       (auto simp: createFunction_typed[OF assms])
qed

lemma falsy_no_entries:
  "\<not> truthy l \<Longrightarrow> \<not> has_own l k x"
  by (cases l) (auto simp: has_own_def)

text \<open>
  C10. \<open>createFunction\<close> leaves its argument changed in the project label only: every
  property of the configuration other than \<open>metadata\<close>, every property of the metadata
  other than \<open>labels\<close>, and every label other than the project label is as it was.
  Labels that were absent become an object that holds the project label alone.
\<close>

theorem createFunction_frame:
  assumes "typed_config cfg" and "createFunction d backend pn cfg tr = (r, cfg', tr')"
  shows "(\<forall>k x. k \<noteq> ''metadata'' \<longrightarrow> has_own cfg' k x = has_own cfg k x) \<and>
         (\<forall>k x. k \<noteq> ''labels'' \<longrightarrow>
            has_own (own_value cfg' ''metadata'') k x = has_own (own_value cfg ''metadata'') k x) \<and>
         (\<forall>k x. k \<noteq> project_label \<longrightarrow>
            has_own (labels_of cfg') k x = has_own (labels_of cfg) k x)"
proof -
  from assms(1) obtain fs md where a: "cfg = JObj fs" "map_of fs ''metadata'' = Some (JObj md)"
    and t: "is_object (own_value (JObj md) ''labels'') \<or> \<not> truthy (own_value (JObj md) ''labels'')"
    by (rule typed_configE)
  from labelled_explicit[OF a t, of pn] have l: "labelled pn cfg =
           JObj (AList.update ''metadata''
                  (JObj (AList.update ''labels''
                     (JObj (AList.update project_label (JStr pn)
                        (label_entries (own_value (JObj md) ''labels''))))
                     md))
                  fs)"
    by (simp add: labelled_def)
  note l = l[unfolded a(1)]
  from assms(2) have c: "cfg' = labelled pn cfg"
    by (auto simp: createFunction_typed[OF assms(1)] split: sum.splits prod.splits)
  have 1: "\<forall>k x. k \<noteq> ''metadata'' \<longrightarrow> has_own cfg' k x = has_own cfg k x"
    by (simp add: c l a(1) has_own_obj update_conv')
  have 2: "\<forall>k x. k \<noteq> ''labels'' \<longrightarrow>
            has_own (own_value cfg' ''metadata'') k x = has_own (own_value cfg ''metadata'') k x"
    using a(2) by (simp add: c l a(1) has_own_obj own_value_obj update_conv')
  have 3: "\<forall>k x. k \<noteq> project_label \<longrightarrow>
            has_own (labels_of cfg') k x = has_own (labels_of cfg) k x"
  proof (intro allI impI)
    fix k x assume k: "k \<noteq> project_label"
    have new: "labels_of cfg' = JObj (AList.update project_label (JStr pn)
                        (label_entries (own_value (JObj md) ''labels'')))"
      by (simp add: c a(1) l labels_of_def own_value_obj update_conv')
    have old: "labels_of cfg = own_value (JObj md) ''labels''"
      using a(2) by (simp add: a(1) labels_of_def own_value_obj)
    from t show "has_own (labels_of cfg') k x = has_own (labels_of cfg) k x"
    proof
      assume "is_object (own_value (JObj md) ''labels'')"
      then obtain ls where "own_value (JObj md) ''labels'' = JObj ls"
        by (auto simp: is_object_def split: jsval.splits)
      with k show ?thesis
        unfolding new old by (simp add: has_own_obj update_conv' label_entries_def)
    next
      assume f: "\<not> truthy (own_value (JObj md) ''labels'')"
      then have "label_entries (own_value (JObj md) ''labels'') = []"
        by (cases "own_value (JObj md) ''labels''") (auto simp: label_entries_def)
      with k falsy_no_entries[OF f] show ?thesis
        unfolding new old by (simp add: has_own_obj)
    qed
  qed
  from 1 2 3 show ?thesis by blast
qed

section \<open>Invoking a function\<close>

text \<open>
  What holds of the body, for options without headers, path and \<open>via\<close>: \<open>post\<close> and
  \<open>put\<close> send \<open>options.body\<close>; \<open>get\<close>, \<open>delete\<close>, \<open>head\<close> and \<open>options\<close> send none;
  \<open>patch\<close> sends the configuration object.
\<close>

lemma invoke_headers:
  assumes "headers options = JUndefined" and "path options = JUndefined"
    and "via options = JUndefined"
  shows "bind_r (set_prop (if truthy (headers options) then headers options else JObj [])
                        ''x-nuclio-function-name'' (name ident)) (\<lambda>h.
              bind_r (set_prop h ''x-nuclio-function-namespace'' (namespace ident)) (\<lambda>h.
              bind_r (set_prop h ''x-nuclio-invoke-via''
                        (if truthy (via options) then via options else JStr ''external-ip'')) (\<lambda>h.
              if path options \<noteq> JUndefined then set_prop h ''x-nuclio-path'' (path options)
              else Inr h))) =
         Inr (JObj [(''x-nuclio-function-name'', name ident),
                    (''x-nuclio-function-namespace'', namespace ident),
                    (''x-nuclio-invoke-via'', JStr ''external-ip'')])"
  using assms by (simp add: bind_r_def store_def)

lemma invoke_with_body:
  assumes "name ident \<noteq> JUndefined" and "headers options = JUndefined"
    and "path options = JUndefined" and "via options = JUndefined"
    and "method_name options = ''post'' \<or> method_name options = ''put''"
  shows "\<exists>r rq. invokeFunction d backend ident options tr = (r, tr @ [Call rq]) \<and>
           req_data rq = Value (body options)"
proof -
  note h = invoke_headers[OF assms(2,3,4), of ident]
  from assms(5) show ?thesis
  proof
    assume m: "method_name options = ''post''"
    show ?thesis
      unfolding invokeFunction_def h m using assms(1)
      by (simp add: Let_def axios_member_def axios_send_def arg_def config_of_def split: sum.splits)
  next
    assume m: "method_name options = ''put''"
    show ?thesis
      unfolding invokeFunction_def h m using assms(1)
      by (simp add: Let_def axios_member_def axios_send_def arg_def config_of_def split: sum.splits)
  qed
qed

lemma invoke_without_body:
  assumes "name ident \<noteq> JUndefined" and "headers options = JUndefined"
    and "path options = JUndefined" and "via options = JUndefined"
    and "method_name options = ''get'' \<or> method_name options = ''delete'' \<or>
         method_name options = ''head'' \<or> method_name options = ''options''"
  shows "\<exists>r rq. invokeFunction d backend ident options tr = (r, tr @ [Call rq]) \<and>
           req_data rq = Value JUndefined"
proof -
  note h = invoke_headers[OF assms(2,3,4), of ident]
  from assms(5) consider
      (get) "method_name options = ''get''" | (delete) "method_name options = ''delete''"
    | (head) "method_name options = ''head''" | (options) "method_name options = ''options''"
    by blast
  then show ?thesis
  proof cases
    case get
    show ?thesis
      unfolding invokeFunction_def h get using assms(1)
      by (simp add: Let_def axios_member_def axios_send_def arg_def config_of_def
            own_value_obj split: sum.splits)
  next
    case delete
    show ?thesis
      unfolding invokeFunction_def h delete using assms(1)
      by (simp add: Let_def axios_member_def axios_send_def arg_def config_of_def
            own_value_obj split: sum.splits)
  next
    case head
    show ?thesis
      unfolding invokeFunction_def h head using assms(1)
      by (simp add: Let_def axios_member_def axios_send_def arg_def config_of_def
            own_value_obj split: sum.splits)
  next
    case options
    show ?thesis
      unfolding invokeFunction_def h options using assms(1)
      by (simp add: Let_def axios_member_def axios_send_def arg_def config_of_def
            own_value_obj split: sum.splits)
  qed
qed

lemma invoke_patch:
  assumes "name ident \<noteq> JUndefined" and "headers options = JUndefined"
    and "path options = JUndefined" and "via options = JUndefined"
    and "method_name options = ''patch''"
  shows "\<exists>r rq. invokeFunction d backend ident options tr = (r, tr @ [Call rq]) \<and>
           req_headers rq = JUndefined \<and>
           req_data rq = Value (JObj [(''headers'',
               JObj [(''x-nuclio-function-name'', name ident),
                     (''x-nuclio-function-namespace'', namespace ident),
                     (''x-nuclio-invoke-via'', JStr ''external-ip'')])])"
  unfolding invokeFunction_def invoke_headers[OF assms(2,3,4), of ident] assms(5)
  using assms(1)
  by (simp add: Let_def axios_member_def axios_send_def arg_def config_of_def own_value_def
        split: sum.splits)


text \<open>
  C4. The methods that carry \<open>options.body\<close> are listed as \<open>post\<close>, \<open>put\<close> and \<open>path\<close>. For
  the method \<open>patch\<close> the call is therefore \<open>axios.patch(url, {headers})\<close>: the request that
  is dispatched has the object \<open>{headers: ...}\<close> as its body, not \<open>options.body\<close>, and has
  no headers.
\<close>

theorem invoke_patch_body:
  "invokeFunction ex_dashboard single_backend ex_function_id ex_patch_options [] =
     (Inr \<lparr>statusCode = 200, result_headers = JObj [],
           result_body = ex_function ''f1'' ''ready'' []\<rparr>,
      [Call \<lparr>req_method = PATCH,
             req_url = ''http://localhost:8070/api/function_invocations'',
             req_headers = JUndefined,
             req_data = Value (JObj [(''headers'',
               JObj [(''x-nuclio-function-name'', JStr ''f1''),
                     (''x-nuclio-function-namespace'', JStr ''nuclio''),
                     (''x-nuclio-invoke-via'', JStr ''external-ip'')])])\<rparr>]) \<and>
   body ex_patch_options = JStr ''payload''"
  by (simp add: invokeFunction_def ex_dashboard_def single_backend_def ex_function_id_def
        ex_patch_options_def bind_r_def axios_member_def axios_send_def arg_def config_of_def
        own_value_def ok_response_def store_def)


section \<open>Deploying a function\<close>

lemma createFunction_first_call:
  assumes "typed_config cfg"
  shows "\<exists>r evs. createFunction d backend pn cfg tr =
           (r, labelled pn cfg, tr @ Call (create_request d (labelled pn cfg)) # evs)"
proof -
  obtain r trf where p: "pollLoop d backend (labelled pn cfg) 0
                          (tr @ [Call (create_request d (labelled pn cfg))]) = (r, trf)"
    by (cases "pollLoop d backend (labelled pn cfg) 0
                 (tr @ [Call (create_request d (labelled pn cfg))])")
  with pollLoop_extends[of d backend "labelled pn cfg" 0
         "tr @ [Call (create_request d (labelled pn cfg))]"]
  obtain evs where "trf = tr @ Call (create_request d (labelled pn cfg)) # evs" by auto
  with p show ?thesis
    by (cases "backend tr (create_request d (labelled pn cfg))")
       (auto simp: createFunction_typed[OF assms])
qed

lemma deploy_entries:
  assumes "files = [c, s] \<or> files = [s, c]"
    and "getExtension c = ''yaml''" and "getExtension s \<noteq> ''yaml''"
    and "readJsonSync h (path_join h dir c) = Inr config"
    and "readFileSync h (path_join h dir s) = Inr text"
    and "base64_encode h text = Inr code"
  shows "foldl (deploy_entry h dir) (JUndefined, JUndefined) files = (config, JStr code)"
  using assms by (auto simp: deploy_entry_def bind_r_def)

lemma set_source_object:
  assumes "config = JObj fs" and "map_of fs ''spec'' = Some (JObj sp)"
    and "map_of sp ''build'' = Some (JObj bd)"
  shows "set_source config x =
           Inr (JObj (AList.update ''spec''
                  (JObj (AList.update ''build''
                     (JObj (AList.update ''functionSourceCode'' x bd)) sp)) fs))"
  using assms by (simp add: set_source_def set_prop2_def bind_r_def store_def)

text \<open>
  C9, amended. For a directory that lists a configuration file (extension \<open>yaml\<close>) and a
  source file (any other extension), in either order, when the configuration file parses
  as JSON to an object with a \<open>spec.build\<close> object and the base64 library encodes the
  source's text: the command stores the base64 text of the source in
  \<open>spec.build.functionSourceCode\<close>, leaves the rest of the configuration as read, and its
  outcome is that of \<open>createFunction\<close> called on the item's dashboard with the item's
  project name and that configuration, after the two log lines; when the call resolves,
  the notification and the log line of success follow. For a configuration of the
  declared type the first request is the create request that carries that configuration,
  labelled with the project's name.
\<close>

theorem deploy_assembles_and_creates:
  assumes "readdirSync h (functionConfig_path item) = Inr files"
    and "files = [c, s] \<or> files = [s, c]"
    and "getExtension c = ''yaml''" and "getExtension s \<noteq> ''yaml''"
    and "readJsonSync h (path_join h (functionConfig_path item) c) = Inr config"
    and "readFileSync h (path_join h (functionConfig_path item) s) = Inr text"
    and "base64_encode h text = Inr code"
    and "config = JObj fs" and "map_of fs ''spec'' = Some (JObj sp)"
    and "map_of sp ''build'' = Some (JObj bd)"
  shows "\<exists>config'.
           set_source config (JStr code) = Inr config' \<and>
           function_source config' = Inr (JStr code) \<and>
           (\<forall>k x. k \<noteq> ''spec'' \<longrightarrow> has_own config' k x = has_own config k x) \<and>
           deploy h backend item tr =
             (case createFunction (dashboard item) backend (item_projectName item) config'
                     (tr @ [Log ''Reading files from directory'', Log ''Deploying function...'']) of
                (Inl e, cfg, tr2) \<Rightarrow> (Inl e, tr2)
              | (Inr r, cfg, tr2) \<Rightarrow>
                  (Inr (), tr2 @ [Notify ''Function deployed successfully'',
                                  Log ''Function deployed successfully''])) \<and>
           (typed_config config \<longrightarrow>
              (\<exists>r evs. deploy h backend item tr =
                 (r, tr @ [Log ''Reading files from directory'', Log ''Deploying function...'',
                           Call (create_request (dashboard item)
                                   (labelled (item_projectName item) config'))] @ evs)))"
proof -
  let ?config' = "JObj (AList.update ''spec''
                  (JObj (AList.update ''build''
                     (JObj (AList.update ''functionSourceCode'' (JStr code) bd)) sp)) fs)"
  have src: "set_source config (JStr code) = Inr ?config'"
    by (rule set_source_object[OF assms(8,9,10)])
  have rd: "function_source ?config' = Inr (JStr code)"
    by (simp add: function_source_def bind_r_def update_conv')
  have fr: "\<forall>k x. k \<noteq> ''spec'' \<longrightarrow> has_own ?config' k x = has_own config k x"
    by (simp add: assms(8) has_own_obj update_conv')
  have fold: "foldl (deploy_entry h (functionConfig_path item)) (JUndefined, JUndefined) files
                = (config, JStr code)"
    by (rule deploy_entries[OF assms(2-7)])
  have "deploy h backend item tr =
             (case createFunction (dashboard item) backend (item_projectName item) ?config'
                     (tr @ [Log ''Reading files from directory'', Log ''Deploying function...'']) of
                (Inl e, cfg, tr2) \<Rightarrow> (Inl e, tr2)
              | (Inr r, cfg, tr2) \<Rightarrow>
                  (Inr (), tr2 @ [Notify ''Function deployed successfully'',
                                  Log ''Function deployed successfully'']))"
    by (simp add: deploy_def assms(1) fold src Let_def)
  note dep = this
  have first: "typed_config config \<longrightarrow>
              (\<exists>r evs. deploy h backend item tr =
                 (r, tr @ [Log ''Reading files from directory'', Log ''Deploying function...'',
                           Call (create_request (dashboard item)
                                   (labelled (item_projectName item) ?config'))] @ evs))"
  proof
    assume "typed_config config"
    then have ty: "typed_config ?config'"
      by (simp add: assms(8) typed_config_def is_object_def own_value_obj update_conv')
    from createFunction_first_call[OF ty, of "dashboard item" backend "item_projectName item"
           "tr @ [Log ''Reading files from directory'', Log ''Deploying function...'']"]
    obtain r evs where
      "createFunction (dashboard item) backend (item_projectName item) ?config'
         (tr @ [Log ''Reading files from directory'', Log ''Deploying function...'']) =
       (r, labelled (item_projectName item) ?config',
        (tr @ [Log ''Reading files from directory'', Log ''Deploying function...''])
          @ Call (create_request (dashboard item) (labelled (item_projectName item) ?config')) # evs)"
      by blast
    then show "\<exists>r evs. deploy h backend item tr =
                 (r, tr @ [Log ''Reading files from directory'', Log ''Deploying function...'',
                           Call (create_request (dashboard item)
                                   (labelled (item_projectName item) ?config'))] @ evs)"
      unfolding dep by (cases r) simp_all
  qed
  from src rd fr dep first show ?thesis by blast
qed

section \<open>The properties on the example inputs\<close>

lemma typed_ex_config: "typed_config ex_config"
  by (simp add: typed_config_def ex_config_def is_object_def own_value_obj)

lemma ex_filter: "config_filter ex_config = ex_function_id"
  by (simp add: config_filter_def ex_config_def ex_function_id_def own_value_obj)


lemma ex_poll_request:
  "functions_request ex_dashboard (config_filter ex_config) =
     \<lparr>req_method = GET, req_url = ''http://localhost:8070/api/functions/f1'',
      req_headers = JObj [(''x-nuclio-function-namespace'', JStr ''nuclio'')],
      req_data = Value JUndefined\<rparr>"
  by (simp add: ex_filter functions_request_def ex_dashboard_def ex_function_id_def
        name_suffix_def)

lemma ex_create_request:
  "create_request ex_dashboard c =
     \<lparr>req_method = POST, req_url = ''http://localhost:8070/api/functions'',
      req_headers = JUndefined, req_data = JsonText c\<rparr>"
  by (simp add: create_request_def ex_dashboard_def)

lemma null_status_resource:
  "resource_of FunctionConfig
     (JObj [(''metadata'', JObj [(''name'', JStr ''f1''), (''namespace'', JStr ''nuclio'')]),
            (''status'', JNull)]) =
   JObj [(''metadata'', JObj [(''name'', JStr ''f1''), (''namespace'', JStr ''nuclio'')]),
         (''spec'', JObj [(''build'', JObj [])]),
         (''status'', JNull)]"
  by (simp add: resource_of_def object_assign_def key_order_def key_order_names store_def)

lemma null_status_polls:
  "getFunctions ex_dashboard null_status_backend (config_filter ex_config) tr =
     (Inr [JObj [(''metadata'', JObj [(''name'', JStr ''f1''), (''namespace'', JStr ''nuclio'')]),
                 (''spec'', JObj [(''build'', JObj [])]),
                 (''status'', JNull)]],
      tr @ [Call (functions_request ex_dashboard (config_filter ex_config))])"
  by (simp add: getFunctions_call ex_filter ex_function_id_def null_status_backend_def
        functions_request_def ok_response_def null_status_resource)

lemma ex_source_stored:
  "set_source ex_config (JStr code) =
     Inr (JObj [(''metadata'',
                  JObj [(''name'', JStr ''f1''), (''namespace'', JStr ''nuclio''),
                        (''labels'', JObj [(''owner'', JStr ''ann''),
                                           (''nuclio.io/project-name'', JStr ''old'')])]),
                (''spec'', JObj [(''runtime'', JStr ''python:3.6''),
                                 (''build'', JObj [(''functionSourceCode'', JStr code)])])])"
  by (simp add: set_source_def set_prop2_def bind_r_def ex_config_def store_def)

lemma ex_deploy_offline:
  "createFunction ex_dashboard offline_backend ''p1''
     (JObj [(''metadata'',
              JObj [(''name'', JStr ''f1''), (''namespace'', JStr ''nuclio''),
                    (''labels'', JObj [(''owner'', JStr ''ann''),
                                       (''nuclio.io/project-name'', JStr ''old'')])]),
            (''spec'', JObj [(''runtime'', JStr ''python:3.6''),
                             (''build'', JObj [(''functionSourceCode'', x)])])]) tr =
   (Inl (TransportError ''ECONNREFUSED''),
    JObj [(''metadata'',
            JObj [(''name'', JStr ''f1''), (''namespace'', JStr ''nuclio''),
                  (''labels'', JObj [(''owner'', JStr ''ann''),
                                     (''nuclio.io/project-name'', JStr ''p1'')])]),
          (''spec'', JObj [(''runtime'', JStr ''python:3.6''),
                           (''build'', JObj [(''functionSourceCode'', x)])])],
    tr @ [Call \<lparr>req_method = POST, req_url = ''http://localhost:8070/api/functions'',
                 req_headers = JUndefined,
                 req_data = JsonText
                   (JObj [(''metadata'',
                            JObj [(''name'', JStr ''f1''), (''namespace'', JStr ''nuclio''),
                                  (''labels'', JObj [(''owner'', JStr ''ann''),
                                                     (''nuclio.io/project-name'', JStr ''p1'')])]),
                          (''spec'', JObj [(''runtime'', JStr ''python:3.6''),
                                           (''build'', JObj [(''functionSourceCode'', x)])])])\<rparr>])"
  by (simp add: createFunction_def ensure_labels_def set_project_label_def set_prop2_def
        bind_r_def store_def project_label_def axios_post_def axios_send_def no_config_def
        offline_backend_def ex_dashboard_def)

theorem error_state_fails_at_once_witness:
  "typed_config ex_config \<and> 0 < maxRetries \<and>
   getFunctions ex_dashboard failing_backend (config_filter ex_config)
       [Call (create_request ex_dashboard (labelled ''p1'' ex_config))] =
     (Inr [resource_of FunctionConfig (ex_function ''f1'' ''error'' ''build failed'')],
      [Call (create_request ex_dashboard (labelled ''p1'' ex_config)),
       Call (functions_request ex_dashboard (config_filter ex_config))]) \<and>
   function_state (resource_of FunctionConfig (ex_function ''f1'' ''error'' ''build failed''))
     = Inr (JStr ''error'') \<and>
   function_message (resource_of FunctionConfig (ex_function ''f1'' ''error'' ''build failed''))
     = Inr (JStr ''build failed'') \<and>
   createFunction ex_dashboard failing_backend ''p1'' ex_config [] =
     (Inl (Error ''Creation failed: build failed''), labelled ''p1'' ex_config,
      [Call (create_request ex_dashboard (labelled ''p1'' ex_config)),
       Call (functions_request ex_dashboard (config_filter ex_config))])"
proof -
  have h1: "typed_config ex_config" by (rule typed_ex_config)
  have h2: "0 < maxRetries" by (simp add: maxRetries_def)
  have h3: "getFunctions ex_dashboard failing_backend (config_filter ex_config)
       [Call (create_request ex_dashboard (labelled ''p1'' ex_config))] =
     (Inr [resource_of FunctionConfig (ex_function ''f1'' ''error'' ''build failed'')],
      [Call (create_request ex_dashboard (labelled ''p1'' ex_config)),
       Call (functions_request ex_dashboard (config_filter ex_config))])"
    by (simp add: getFunctions_call ex_filter ex_function_id_def failing_backend_def
          functions_request_def ok_response_def)
  have h4: "function_state (resource_of FunctionConfig (ex_function ''f1'' ''error'' ''build failed''))
     = Inr (JStr ''error'')"
    by (simp add: function_state_def bind_r_def resource_of_def ex_function_def object_assign_obj)
  have h5: "function_message (resource_of FunctionConfig (ex_function ''f1'' ''error'' ''build failed''))
     = Inr (JStr ''build failed'')"
    by (simp add: function_message_def bind_r_def resource_of_def ex_function_def object_assign_obj)
  have h6: "failing_backend [] (create_request ex_dashboard (labelled ''p1'' ex_config))
              = Inr (ok_response JNull)"
    by (simp add: failing_backend_def create_request_def)
  from error_state_fails_at_once
         [where cfg = ex_config and i = 0 and d = ex_dashboard and backend = failing_backend
            and tr' = "[Call (create_request ex_dashboard (labelled ''p1'' ex_config))]"
            and tr = "[]" and pn = "''p1''" and resp = "ok_response JNull", OF h1 h2 h3 h4]
       h1 h2 h3 h4 h5 h6
  show ?thesis by auto
qed

lemma building_state:
  "function_state (resource_of FunctionConfig (ex_function ''f1'' ''building'' [])) = Inr (JStr ''building'')"
  by (simp add: function_state_def bind_r_def resource_of_def ex_function_def object_assign_obj)

theorem silent_timeout_witness:
  "typed_config ex_config \<and>
   building_backend [] (create_request ex_dashboard (labelled ''p1'' ex_config))
     = Inr (ok_response JNull) \<and>
   \<not> (\<exists>tr' rs trp.
        getFunctions ex_dashboard building_backend (config_filter ex_config) tr' = (Inr rs, trp) \<and>
        rs \<noteq> [] \<and>
        \<not> (\<exists>s. function_state (hd rs) = Inr s \<and> s \<noteq> JStr ''ready'' \<and> s \<noteq> JStr ''error'')) \<and>
   createFunction ex_dashboard building_backend ''p1'' ex_config [] =
     (Inr JUndefined, labelled ''p1'' ex_config,
      [] @ [Call (create_request ex_dashboard (labelled ''p1'' ex_config))]
         @ concat (replicate 60
             [Call (functions_request ex_dashboard (config_filter ex_config)), Sleep 1000]))"
proof -
  have h1: "typed_config ex_config" by (rule typed_ex_config)
  have h2: "building_backend [] (create_request ex_dashboard (labelled ''p1'' ex_config))
              = Inr (ok_response JNull)"
    by (simp add: building_backend_def create_request_def)
  have h3: "\<forall>tr' rs trp.
      getFunctions ex_dashboard building_backend (config_filter ex_config) tr' = (Inr rs, trp) \<and>
      rs \<noteq> []
      \<longrightarrow> (\<exists>s. function_state (hd rs) = Inr s \<and> s \<noteq> JStr ''ready'' \<and> s \<noteq> JStr ''error'')"
    by (auto simp: getFunctions_call ex_filter ex_function_id_def building_backend_def
          functions_request_def ok_response_def building_state)
  then have h3': "\<not> (\<exists>tr' rs trp.
        getFunctions ex_dashboard building_backend (config_filter ex_config) tr' = (Inr rs, trp) \<and>
        rs \<noteq> [] \<and>
        \<not> (\<exists>s. function_state (hd rs) = Inr s \<and> s \<noteq> JStr ''ready'' \<and> s \<noteq> JStr ''error''))"
    by blast
  from silent_timeout
         [where cfg = ex_config and d = ex_dashboard and backend = building_backend
            and tr = "[]" and pn = "''p1''" and resp = "ok_response JNull", OF h1 h2 h3]
       h1 h2 h3'
  show ?thesis by (intro conjI)
qed

text \<open>
  C2, as it is stated, does not hold: a server that answers every poll with a function
  whose \<open>status\<close> is \<open>null\<close> never reports the state \<open>ready\<close> or \<open>error\<close>, and
  \<open>createFunction\<close> throws a \<open>TypeError\<close> at the first poll, where it reads
  \<open>status.state\<close> outside the \<open>try\<close> block.
\<close>

theorem silent_timeout_counterexample:
  "typed_config ex_config \<and>
   null_status_backend [] (create_request ex_dashboard (labelled ''p1'' ex_config))
     = Inr (ok_response JNull) \<and>
   \<not> (\<exists>tr' rs trp.
        getFunctions ex_dashboard null_status_backend (config_filter ex_config) tr' = (Inr rs, trp) \<and>
        rs \<noteq> [] \<and>
        (function_state (hd rs) = Inr (JStr ''ready'') \<or>
         function_state (hd rs) = Inr (JStr ''error''))) \<and>
   createFunction ex_dashboard null_status_backend ''p1'' ex_config [] =
     (Inl (TypeError ''Cannot read property state of null''),
      labelled ''p1'' ex_config,
      [Call \<lparr>req_method = POST, req_url = ''http://localhost:8070/api/functions'',
             req_headers = JUndefined, req_data = JsonText (labelled ''p1'' ex_config)\<rparr>,
       Call \<lparr>req_method = GET, req_url = ''http://localhost:8070/api/functions/f1'',
             req_headers = JObj [(''x-nuclio-function-namespace'', JStr ''nuclio'')],
             req_data = Value JUndefined\<rparr>])"
proof -
  have h1: "typed_config ex_config" by (rule typed_ex_config)
  have h2: "null_status_backend [] (create_request ex_dashboard (labelled ''p1'' ex_config))
              = Inr (ok_response JNull)"
    by (simp add: null_status_backend_def create_request_def)
  have st: "function_state
              (JObj [(''metadata'', JObj [(''name'', JStr ''f1''), (''namespace'', JStr ''nuclio'')]),
                     (''spec'', JObj [(''build'', JObj [])]),
                     (''status'', JNull)]) =
            Inl (TypeError ''Cannot read property state of null'')"
    by (simp add: function_state_def bind_r_def)
  have h3: "\<not> (\<exists>tr' rs trp.
        getFunctions ex_dashboard null_status_backend (config_filter ex_config) tr' = (Inr rs, trp) \<and>
        rs \<noteq> [] \<and>
        (function_state (hd rs) = Inr (JStr ''ready'') \<or>
         function_state (hd rs) = Inr (JStr ''error'')))"
    by (auto simp: null_status_polls st)
  have "0 < maxRetries" by (simp add: maxRetries_def)
  then have loop: "pollLoop ex_dashboard null_status_backend (labelled ''p1'' ex_config) 0
                (tr @ [Call (create_request ex_dashboard (labelled ''p1'' ex_config))]) =
          (Inl (TypeError ''Cannot read property state of null''),
           tr @ [Call (create_request ex_dashboard (labelled ''p1'' ex_config)),
                 Call (functions_request ex_dashboard (config_filter ex_config))])" for tr
    by (simp add: pollLoop_step pollAttempt_def tryGetFunctions_labelled[OF h1]
          null_status_polls st)
  have c: "createFunction ex_dashboard null_status_backend ''p1'' ex_config [] =
     (Inl (TypeError ''Cannot read property state of null''),
      labelled ''p1'' ex_config,
      [Call (create_request ex_dashboard (labelled ''p1'' ex_config)),
       Call (functions_request ex_dashboard (config_filter ex_config))])"
    using loop[of "[]"] by (simp add: createFunction_typed[OF h1] h2)
  from h1 h2 h3 c show ?thesis
    unfolding ex_poll_request ex_create_request by (intro conjI)
qed



theorem project_label_before_create_witness:
  "typed_config ex_config \<and>
   has_own (labels_of ex_config) project_label (JStr ''old'') \<and>
   has_own (labels_of (labelled ''p1'' ex_config)) project_label (JStr ''p1'') \<and>
   (\<exists>r evs. createFunction ex_dashboard offline_backend ''p1'' ex_config [] =
      (r, labelled ''p1'' ex_config,
       [] @ Call (create_request ex_dashboard (labelled ''p1'' ex_config)) # evs))"
proof -
  have h1: "typed_config ex_config" by (rule typed_ex_config)
  have old: "has_own (labels_of ex_config) project_label (JStr ''old'')"
    by (simp add: labels_of_def ex_config_def own_value_obj has_own_obj project_label_def)
  from project_label_before_create
         [where cfg = ex_config and d = ex_dashboard and backend = offline_backend
            and tr = "[]" and pn = "''p1''", OF h1] h1 old
  show ?thesis by (intro conjI) blast+
qed

theorem createFunction_frame_witness:
  "typed_config ex_config \<and>
   createFunction ex_dashboard offline_backend ''p1'' ex_config [] =
     (Inl (TransportError ''ECONNREFUSED''), labelled ''p1'' ex_config,
      [Call (create_request ex_dashboard (labelled ''p1'' ex_config))]) \<and>
   has_own (labelled ''p1'' ex_config) ''spec''
     (JObj [(''runtime'', JStr ''python:3.6''), (''build'', JObj [])]) \<and>
   has_own (own_value (labelled ''p1'' ex_config) ''metadata'') ''name'' (JStr ''f1'') \<and>
   has_own (own_value (labelled ''p1'' ex_config) ''metadata'') ''namespace'' (JStr ''nuclio'') \<and>
   has_own (labels_of (labelled ''p1'' ex_config)) ''owner'' (JStr ''ann'')"
proof -
  have h1: "typed_config ex_config" by (rule typed_ex_config)
  have h2: "createFunction ex_dashboard offline_backend ''p1'' ex_config [] =
     (Inl (TransportError ''ECONNREFUSED''), labelled ''p1'' ex_config,
      [Call (create_request ex_dashboard (labelled ''p1'' ex_config))])"
    by (simp add: createFunction_typed[OF h1] offline_backend_def)
  have spec: "has_own ex_config ''spec''
                (JObj [(''runtime'', JStr ''python:3.6''), (''build'', JObj [])])"
    by (simp add: ex_config_def has_own_obj)
  have nm: "has_own (own_value ex_config ''metadata'') ''name'' (JStr ''f1'')"
    by (simp add: ex_config_def own_value_obj has_own_obj)
  have ns: "has_own (own_value ex_config ''metadata'') ''namespace'' (JStr ''nuclio'')"
    by (simp add: ex_config_def own_value_obj has_own_obj)
  have owner: "has_own (labels_of ex_config) ''owner'' (JStr ''ann'')"
    by (simp add: labels_of_def ex_config_def own_value_obj has_own_obj)
  note fr = createFunction_frame [OF h1 h2]
  from fr spec have c1: "has_own (labelled ''p1'' ex_config) ''spec''
                          (JObj [(''runtime'', JStr ''python:3.6''), (''build'', JObj [])])"
    by simp
  from fr nm have c2: "has_own (own_value (labelled ''p1'' ex_config) ''metadata'') ''name'' (JStr ''f1'')"
    by simp
  from fr ns have c3:
    "has_own (own_value (labelled ''p1'' ex_config) ''metadata'') ''namespace'' (JStr ''nuclio'')"
    by simp
  from fr owner have c4: "has_own (labels_of (labelled ''p1'' ex_config)) ''owner'' (JStr ''ann'')"
    by (simp add: project_label_def)
  from h1 h2 c1 c2 c3 c4 show ?thesis by (intro conjI)
qed

lemma ex_handler_encoded:
  "library_encode ex_handler = Inr ''ZGVmIGhhbmRsZXIoY29udGV4dCwgZXZlbnQpOiByZXR1cm4gMQ==''"
  by code_simp

text \<open>
  C9, as it is stated, does not hold. In a directory with one \<open>.yaml\<close> file and one
  source file: a configuration without a build section makes the store of the source throw,
  and \<open>createFunction\<close> is not called; so does a configuration file that \<open>readJsonSync\<close>
  cannot parse, whose exception is lost in the callback; and a source that the base64
  library refuses is sent as a configuration whose source is \<open>undefined\<close>.
\<close>

theorem deploy_counterexample:
  "readdirSync no_build_host (functionConfig_path ex_item) = Inr [''function.yaml'', ''handler.py''] \<and>
   deploy no_build_host single_backend ex_item [] =
     (Inl (TypeError ''Cannot set property functionSourceCode of undefined''),
      [Log ''Reading files from directory'']) \<and>
   readdirSync yaml_text_host (functionConfig_path ex_item) = Inr [''function.yaml'', ''handler.py''] \<and>
   deploy yaml_text_host single_backend ex_item [] =
     (Inl (TypeError ''Cannot read property spec of undefined''),
      [Log ''Reading files from directory'']) \<and>
   readdirSync wide_text_host (functionConfig_path ex_item) = Inr [''function.yaml'', ''handler.py''] \<and>
   deploy wide_text_host offline_backend ex_item [] =
     (Inl (TransportError ''ECONNREFUSED''),
      [Log ''Reading files from directory'', Log ''Deploying function...'',
       Call \<lparr>req_method = POST, req_url = ''http://localhost:8070/api/functions'',
             req_headers = JUndefined,
             req_data = JsonText
               (JObj [(''metadata'',
                        JObj [(''name'', JStr ''f1''), (''namespace'', JStr ''nuclio''),
                              (''labels'', JObj [(''owner'', JStr ''ann''),
                                                 (''nuclio.io/project-name'', JStr ''p1'')])]),
                      (''spec'', JObj [(''runtime'', JStr ''python:3.6''),
                                       (''build'', JObj [(''functionSourceCode'', JUndefined)])])])\<rparr>])"
proof -
  have ext: "getExtension ''function.yaml'' = ''yaml''" "getExtension ''handler.py'' \<noteq> ''yaml''"
    by (simp_all add: getExtension_def)
  have 1: "deploy no_build_host single_backend ex_item [] =
     (Inl (TypeError ''Cannot set property functionSourceCode of undefined''),
      [Log ''Reading files from directory''])"
    by (simp add: deploy_def no_build_host_def ex_host_def ex_item_def deploy_entry_def ext
          bind_r_def set_source_def set_prop2_def Let_def ex_handler_encoded)
  have 2: "deploy yaml_text_host single_backend ex_item [] =
     (Inl (TypeError ''Cannot read property spec of undefined''),
      [Log ''Reading files from directory''])"
    by (simp add: deploy_def yaml_text_host_def ex_host_def ex_item_def deploy_entry_def ext
          bind_r_def set_source_def set_prop2_def Let_def ex_handler_encoded)
  have enc: "library_encode [35, 32, 9786] =
       Inl (Error ''The string to be encoded contains characters outside of the Latin1 range.'')"
    by (simp add: library_encode_def)
  have src: "set_source ex_config JUndefined =
     Inr (JObj [(''metadata'',
                  JObj [(''name'', JStr ''f1''), (''namespace'', JStr ''nuclio''),
                        (''labels'', JObj [(''owner'', JStr ''ann''),
                                           (''nuclio.io/project-name'', JStr ''old'')])]),
                (''spec'', JObj [(''runtime'', JStr ''python:3.6''),
                                 (''build'', JObj [(''functionSourceCode'', JUndefined)])])])"
    by (simp add: set_source_def set_prop2_def bind_r_def ex_config_def store_def)
  have 3: "deploy wide_text_host offline_backend ex_item [] =
     (Inl (TransportError ''ECONNREFUSED''),
      [Log ''Reading files from directory'', Log ''Deploying function...'',
       Call \<lparr>req_method = POST, req_url = ''http://localhost:8070/api/functions'',
             req_headers = JUndefined,
             req_data = JsonText
               (JObj [(''metadata'',
                        JObj [(''name'', JStr ''f1''), (''namespace'', JStr ''nuclio''),
                              (''labels'', JObj [(''owner'', JStr ''ann''),
                                                 (''nuclio.io/project-name'', JStr ''p1'')])]),
                      (''spec'', JObj [(''runtime'', JStr ''python:3.6''),
                                       (''build'', JObj [(''functionSourceCode'', JUndefined)])])])\<rparr>])"
    by (simp add: deploy_def wide_text_host_def ex_host_def ex_item_def deploy_entry_def ext
          bind_r_def Let_def enc src ex_deploy_offline)
  show ?thesis
    using 1 2 3
    by (simp add: no_build_host_def yaml_text_host_def wide_text_host_def ex_host_def)
qed

theorem deploy_assembles_and_creates_witness:
  "readdirSync ex_host (functionConfig_path ex_item) = Inr [''function.yaml'', ''handler.py''] \<and>
   getExtension ''function.yaml'' = ''yaml'' \<and> getExtension ''handler.py'' \<noteq> ''yaml'' \<and>
   readJsonSync ex_host (path_join ex_host (functionConfig_path ex_item) ''function.yaml'')
     = Inr ex_config \<and>
   readFileSync ex_host (path_join ex_host (functionConfig_path ex_item) ''handler.py'')
     = Inr ex_handler \<and>
   base64_encode ex_host ex_handler
     = Inr ''ZGVmIGhhbmRsZXIoY29udGV4dCwgZXZlbnQpOiByZXR1cm4gMQ=='' \<and>
   own_value ex_config ''spec'' = JObj [(''runtime'', JStr ''python:3.6''), (''build'', JObj [])] \<and>
   deploy ex_host offline_backend ex_item [] =
     (Inl (TransportError ''ECONNREFUSED''),
      [Log ''Reading files from directory'', Log ''Deploying function...'',
       Call \<lparr>req_method = POST, req_url = ''http://localhost:8070/api/functions'',
             req_headers = JUndefined,
             req_data = JsonText
               (JObj [(''metadata'',
                        JObj [(''name'', JStr ''f1''), (''namespace'', JStr ''nuclio''),
                              (''labels'', JObj [(''owner'', JStr ''ann''),
                                                 (''nuclio.io/project-name'', JStr ''p1'')])]),
                      (''spec'',
                       JObj [(''runtime'', JStr ''python:3.6''),
                             (''build'',
                              JObj [(''functionSourceCode'',
                                     JStr ''ZGVmIGhhbmRsZXIoY29udGV4dCwgZXZlbnQpOiByZXR1cm4gMQ=='')])])])\<rparr>]) \<and>
   (\<exists>config'.
      set_source ex_config (JStr ''ZGVmIGhhbmRsZXIoY29udGV4dCwgZXZlbnQpOiByZXR1cm4gMQ=='')
        = Inr config' \<and>
      function_source config' = Inr (JStr ''ZGVmIGhhbmRsZXIoY29udGV4dCwgZXZlbnQpOiByZXR1cm4gMQ=='') \<and>
      (\<forall>k x. k \<noteq> ''spec'' \<longrightarrow> has_own config' k x = has_own ex_config k x) \<and>
      deploy ex_host offline_backend ex_item [] =
        (case createFunction (dashboard ex_item) offline_backend (item_projectName ex_item) config'
                ([] @ [Log ''Reading files from directory'', Log ''Deploying function...'']) of
           (Inl e, cfg, tr2) \<Rightarrow> (Inl e, tr2)
         | (Inr r, cfg, tr2) \<Rightarrow>
             (Inr (), tr2 @ [Notify ''Function deployed successfully'',
                             Log ''Function deployed successfully''])))"
proof -
  have h1: "readdirSync ex_host (functionConfig_path ex_item)
              = Inr [''function.yaml'', ''handler.py'']"
    by (simp add: ex_host_def)
  have h2: "[''function.yaml'', ''handler.py''] = [''function.yaml'', ''handler.py''] \<or>
            [''function.yaml'', ''handler.py''] = [''handler.py'', ''function.yaml'']"
    by simp
  have h3: "getExtension ''function.yaml'' = ''yaml''" by (simp add: getExtension_def)
  have h4: "getExtension ''handler.py'' \<noteq> ''yaml''" by (simp add: getExtension_def)
  have h5: "readJsonSync ex_host (path_join ex_host (functionConfig_path ex_item) ''function.yaml'')
              = Inr ex_config"
    by (simp add: ex_host_def)
  have h6: "readFileSync ex_host (path_join ex_host (functionConfig_path ex_item) ''handler.py'')
              = Inr ex_handler"
    by (simp add: ex_host_def)
  have h7: "base64_encode ex_host ex_handler
              = Inr ''ZGVmIGhhbmRsZXIoY29udGV4dCwgZXZlbnQpOiByZXR1cm4gMQ==''"
    by (simp add: ex_host_def ex_handler_encoded)
  have h8: "ex_config =
     JObj [(''metadata'',
              JObj [(''name'', JStr ''f1''), (''namespace'', JStr ''nuclio''),
                    (''labels'', JObj [(''owner'', JStr ''ann''),
                                       (''nuclio.io/project-name'', JStr ''old'')])]),
           (''spec'', JObj [(''runtime'', JStr ''python:3.6''), (''build'', JObj [])])]"
    by (rule ex_config_def)
  have h9: "map_of [(''metadata'',
              JObj [(''name'', JStr ''f1''), (''namespace'', JStr ''nuclio''),
                    (''labels'', JObj [(''owner'', JStr ''ann''),
                                       (''nuclio.io/project-name'', JStr ''old'')])]),
           (''spec'', JObj [(''runtime'', JStr ''python:3.6''), (''build'', JObj [])])] ''spec''
         = Some (JObj [(''runtime'', JStr ''python:3.6''), (''build'', JObj [])])"
    by simp
  have h10: "map_of [(''runtime'', JStr ''python:3.6''), (''build'', JObj [])] ''build''
               = Some (JObj [])"
    by simp
  have sp: "own_value ex_config ''spec''
              = JObj [(''runtime'', JStr ''python:3.6''), (''build'', JObj [])]"
    by (simp add: ex_config_def own_value_obj)
  note t = deploy_assembles_and_creates
         [where h = ex_host and item = ex_item and backend = offline_backend and tr = "[]",
          OF h1 h2 h3 h4 h5 h6 h7 h8 h9 h10]
  from t obtain config' where
    c: "set_source ex_config (JStr ''ZGVmIGhhbmRsZXIoY29udGV4dCwgZXZlbnQpOiByZXR1cm4gMQ=='')
          = Inr config'"
    and d: "deploy ex_host offline_backend ex_item [] =
        (case createFunction (dashboard ex_item) offline_backend (item_projectName ex_item) config'
                ([] @ [Log ''Reading files from directory'', Log ''Deploying function...'']) of
           (Inl e, cfg, tr2) \<Rightarrow> (Inl e, tr2)
         | (Inr r, cfg, tr2) \<Rightarrow>
             (Inr (), tr2 @ [Notify ''Function deployed successfully'',
                             Log ''Function deployed successfully'']))"
    by blast
  from c have c': "config' =
      JObj [(''metadata'',
                  JObj [(''name'', JStr ''f1''), (''namespace'', JStr ''nuclio''),
                        (''labels'', JObj [(''owner'', JStr ''ann''),
                                           (''nuclio.io/project-name'', JStr ''old'')])]),
                (''spec'', JObj [(''runtime'', JStr ''python:3.6''),
                                 (''build'', JObj [(''functionSourceCode'',
                                    JStr ''ZGVmIGhhbmRsZXIoY29udGV4dCwgZXZlbnQpOiByZXR1cm4gMQ=='')])])]"
    by (simp add: ex_source_stored)
  have lit: "deploy ex_host offline_backend ex_item [] =
     (Inl (TransportError ''ECONNREFUSED''),
      [Log ''Reading files from directory'', Log ''Deploying function...'',
       Call \<lparr>req_method = POST, req_url = ''http://localhost:8070/api/functions'',
             req_headers = JUndefined,
             req_data = JsonText
               (JObj [(''metadata'',
                        JObj [(''name'', JStr ''f1''), (''namespace'', JStr ''nuclio''),
                              (''labels'', JObj [(''owner'', JStr ''ann''),
                                                 (''nuclio.io/project-name'', JStr ''p1'')])]),
                      (''spec'',
                       JObj [(''runtime'', JStr ''python:3.6''),
                             (''build'',
                              JObj [(''functionSourceCode'',
                                     JStr ''ZGVmIGhhbmRsZXIoY29udGV4dCwgZXZlbnQpOiByZXR1cm4gMQ=='')])])])\<rparr>])"
    unfolding d c' by (simp add: ex_item_def ex_deploy_offline)
  from c d t have ex: "\<exists>config'.
      set_source ex_config (JStr ''ZGVmIGhhbmRsZXIoY29udGV4dCwgZXZlbnQpOiByZXR1cm4gMQ=='')
        = Inr config' \<and>
      function_source config' = Inr (JStr ''ZGVmIGhhbmRsZXIoY29udGV4dCwgZXZlbnQpOiByZXR1cm4gMQ=='') \<and>
      (\<forall>k x. k \<noteq> ''spec'' \<longrightarrow> has_own config' k x = has_own ex_config k x) \<and>
      deploy ex_host offline_backend ex_item [] =
        (case createFunction (dashboard ex_item) offline_backend (item_projectName ex_item) config'
                ([] @ [Log ''Reading files from directory'', Log ''Deploying function...'']) of
           (Inl e, cfg, tr2) \<Rightarrow> (Inl e, tr2)
         | (Inr r, cfg, tr2) \<Rightarrow>
             (Inr (), tr2 @ [Notify ''Function deployed successfully'',
                             Log ''Function deployed successfully'']))"
    by auto
  from ex h1 h3 h4 h5 h6 h7 sp lit show ?thesis by (intro conjI)
qed

end
